theory Spec2Isabelle
  imports Complex_Main
begin

section \<open>Python values used by the render front-end\<close>

text \<open>
  The development embeds \<^verbatim>\<open>src/cinema4d/redshift_cli_render.py\<close>: the class
  \<^verbatim>\<open>RenderConfig\<close> with \<^verbatim>\<open>to_dict\<close> and \<^verbatim>\<open>from_dict\<close>, the function
  \<^verbatim>\<open>build_command\<close> with \<^verbatim>\<open>quote_win\<close>, and the worker of
  \<^verbatim>\<open>run_command_async\<close>. Strings are lists of 8-bit characters, so a Python
  string is represented when all its code points are below 256.
\<close>

text \<open>
  The exceptions that occur, each with its message. \<open>UnicodeDecodeError\<close> and
  \<open>RuntimeError\<close> occur in the process runner only.
\<close>

datatype pyerr =
  ValueError string
  | OverflowError string
  | UnicodeDecodeError string
  | RuntimeError string

subsection \<open>Floats\<close>

text \<open>
  A Python float is an IEEE 754 binary64 value. \<open>PFinite r\<close> is the finite double of
  value \<open>r\<close>, \<open>PInf neg\<close> an infinity (negative when \<open>neg\<close> holds) and \<open>PNaN\<close> a
  NaN. The sign of a zero is not represented: \<^verbatim>\<open>build_command\<close> only rounds
  the product to an integer, where both zeros give 0.
\<close>

datatype pyfloat = PFinite rat | PInf bool | PNaN

text \<open>The number of bits of a positive integer.\<close>

function bitlen :: "int \<Rightarrow> int" where
  "bitlen n = (if n \<le> 0 then 0 else 1 + bitlen (n div 2))"
  by pat_completeness auto
termination
  by (relation "measure nat") auto

declare bitlen.simps [simp del]

definition pow2 :: "int \<Rightarrow> rat" where
  "pow2 k = (if 0 \<le> k then 2 ^ nat k else 1 / 2 ^ nat (- k))"

text \<open>\<open>ilog2 r\<close> is the exponent of the leading bit of a positive rational \<open>r\<close>.\<close>

definition ilog2 :: "rat \<Rightarrow> int" where
  "ilog2 r = (if 1 \<le> r then bitlen \<lfloor>r\<rfloor> - 1 else - bitlen (\<lceil>1 / r\<rceil> - 1))"

text \<open>Rounding to the nearest integer, a tie going to the even neighbour.\<close>

definition round_half_even :: "rat \<Rightarrow> int" where
  "round_half_even r =
     (let f = \<lfloor>r\<rfloor>; d = r - of_int f
      in if d < 1 / 2 then f
         else if 1 / 2 < d then f + 1
         else if even f then f else f + 1)"

text \<open>
  Rounding a rational to binary64: 53 significant bits, the exponent of the leading bit
  not below -1022 (below that the spacing stays \<open>2 ^ -1074\<close>, the subnormal range), ties
  to even, and an infinity once the rounded magnitude reaches \<open>2 ^ 1024\<close>.
\<close>

definition fround :: "rat \<Rightarrow> pyfloat" where
  "fround r =
     (if r = 0 then PFinite 0
      else let e = max (ilog2 \<bar>r\<bar>) (- 1022);
               q = pow2 (e - 52);
               v = of_int (round_half_even (r / q)) * q
           in if 2 ^ 1024 \<le> \<bar>v\<bar> then PInf (r < 0) else PFinite v)"

text \<open>\<^verbatim>\<open>float(i)\<close> for an int: OverflowError when the int is too large.\<close>

definition float_of_int :: "int \<Rightarrow> pyerr + pyfloat" where
  "float_of_int i =
     (case fround (of_int i) of
        PInf _ \<Rightarrow> Inl (OverflowError ''int too large to convert to float'')
      | f \<Rightarrow> Inr f)"

text \<open>The product of two floats.\<close>

fun float_mul :: "pyfloat \<Rightarrow> pyfloat \<Rightarrow> pyfloat" where
  "float_mul (PFinite a) (PFinite b) = fround (a * b)"
| "float_mul (PFinite a) (PInf n) =
     (if a = 0 then PNaN else PInf ((a < 0) \<noteq> n))"
| "float_mul (PInf n) (PFinite b) =
     (if b = 0 then PNaN else PInf (n \<noteq> (b < 0)))"
| "float_mul (PInf m) (PInf n) = PInf (m \<noteq> n)"
| "float_mul PNaN _ = PNaN"
| "float_mul _ PNaN = PNaN"

text \<open>\<^verbatim>\<open>x * i\<close> for a float \<open>x\<close> and an int \<open>i\<close>: the int is converted first.\<close>

definition float_mul_int :: "pyfloat \<Rightarrow> int \<Rightarrow> pyerr + pyfloat" where
  "float_mul_int x i =
     (case float_of_int i of Inl e \<Rightarrow> Inl e | Inr y \<Rightarrow> Inr (float_mul x y))"

text \<open>
  \<^verbatim>\<open>round(x)\<close> for a float, without a digit count: an int, ties to even; it raises
  on an infinity and on a NaN.
\<close>

fun py_round :: "pyfloat \<Rightarrow> pyerr + int" where
  "py_round (PFinite r) = Inr (round_half_even r)"
| "py_round (PInf _) = Inl (OverflowError ''cannot convert float infinity to integer'')"
| "py_round PNaN = Inl (ValueError ''cannot convert float NaN to integer'')"

subsection \<open>Integers as decimal strings\<close>

fun digits :: "nat \<Rightarrow> string" where
  "digits n =
     (if n < 10 then [''0123456789'' ! n]
      else digits (n div 10) @ [''0123456789'' ! (n mod 10)])"

declare digits.simps [simp del]

text \<open>The decimal text of an int.\<close>

definition decimal :: "int \<Rightarrow> string" where
  "decimal i = (if i < 0 then CHR ''-'' # digits (nat (- i)) else digits (nat i))"

text \<open>
  \<^verbatim>\<open>str(i)\<close> for an int. CPython does not convert an int of more than
  \<^verbatim>\<open>sys.get_int_max_str_digits()\<close> decimal digits, the sign not counted: it raises
  ValueError. The limit is 4300 digits unless the interpreter is configured otherwise.
\<close>

definition int_max_str_digits :: nat where
  "int_max_str_digits = 4300"

definition str_limit_error :: pyerr where
  "str_limit_error =
     ValueError (''Exceeds the limit (4300 digits) for integer string conversion; ''
       @ ''use sys.set_int_max_str_digits() to increase the limit'')"

definition str_int :: "int \<Rightarrow> pyerr + string" where
  "str_int i =
     (if int_max_str_digits < length (digits (nat \<bar>i\<bar>)) then Inl str_limit_error
      else Inr (decimal i))"

text \<open>An int that \<^verbatim>\<open>str\<close> converts: one of at most 4300 decimal digits.\<close>

definition within_str_limit :: "int \<Rightarrow> bool" where
  "within_str_limit i = (length (digits (nat \<bar>i\<bar>)) \<le> int_max_str_digits)"

subsection \<open>Strings\<close>

text \<open>\<^verbatim>\<open>str.isspace\<close> on one character, for code points below 256.\<close>

definition py_isspace :: "char \<Rightarrow> bool" where
  "py_isspace c =
     (c \<in> set [CHR 0x09, CHR 0x0A, CHR 0x0B, CHR 0x0C, CHR 0x0D,
                CHR 0x1C, CHR 0x1D, CHR 0x1E, CHR 0x1F, CHR 0x20, CHR 0x85, CHR 0xA0])"

text \<open>\<^verbatim>\<open>s.strip()\<close>.\<close>

definition py_strip :: "string \<Rightarrow> string" where
  "py_strip s = rev (dropWhile py_isspace (rev (dropWhile py_isspace s)))"

text \<open>\<^verbatim>\<open>sep.join(xs)\<close>.\<close>

fun py_join :: "string \<Rightarrow> string list \<Rightarrow> string" where
  "py_join sep [] = []"
| "py_join sep [x] = x"
| "py_join sep (x # y # ys) = x @ sep @ py_join sep (y # ys)"

text \<open>
  \<^verbatim>\<open>os.path.join(a, b)\<close> of \<^verbatim>\<open>posixpath\<close>: an absolute second component replaces
  the first one, otherwise the two are joined by one separator.
\<close>

definition posixpath_join :: "string \<Rightarrow> string \<Rightarrow> string" where
  "posixpath_join a b =
     (if b \<noteq> [] \<and> hd b = CHR ''/'' then b
      else if a = [] \<or> last a = CHR ''/'' then a @ b
      else a @ ''/'' @ b)"

text \<open>
  \<^verbatim>\<open>os.path.join(path, p)\<close> of \<^verbatim>\<open>ntpath\<close>, the module that is
  \<^verbatim>\<open>os.path\<close> on Windows, as in CPython 3.11. \<open>nt_find c s start\<close> is
  \<^verbatim>\<open>s.find(c, start)\<close>, with \<open>None\<close> for -1.
\<close>

definition nt_find :: "char \<Rightarrow> string \<Rightarrow> nat \<Rightarrow> nat option" where
  "nt_find c s start =
     (case filter (\<lambda>i. s ! i = c) [start ..< length s] of
        [] \<Rightarrow> None
      | i # _ \<Rightarrow> Some i)"

text \<open>
  \<^verbatim>\<open>s.upper()\<close> is only compared with the prefix of a UNC device path, whose
  letters are \<^verbatim>\<open>U\<close>, \<^verbatim>\<open>N\<close> and \<^verbatim>\<open>C\<close>. Among the code points below 256 only
  the letters \<^verbatim>\<open>a\<close> to \<^verbatim>\<open>z\<close> have an upper case that is a character of that
  prefix, so the comparison is the same with the upper case of the ASCII letters alone.
\<close>

definition ascii_upper :: "char \<Rightarrow> char" where
  "ascii_upper c =
     (case map_of (zip ''abcdefghijklmnopqrstuvwxyz'' ''ABCDEFGHIJKLMNOPQRSTUVWXYZ'') c of
        Some u \<Rightarrow> u
      | None \<Rightarrow> c)"

text \<open>\<^verbatim>\<open>s.lower()\<close> on one character, for code points below 256.\<close>

definition py_lower_char :: "char \<Rightarrow> char" where
  "py_lower_char c =
     (let n = (of_char c :: nat)
      in if (65 \<le> n \<and> n \<le> 90) \<or> (192 \<le> n \<and> n \<le> 222 \<and> n \<noteq> 215)
         then char_of (n + 32) else c)"

definition nt_sep :: string where
  "nt_sep = [CHR 0x5C]"

definition nt_seps :: string where
  "nt_seps = [CHR 0x5C, CHR ''/'']"

definition nt_unc_prefix :: string where
  "nt_unc_prefix = [CHR 0x5C, CHR 0x5C, CHR ''?'', CHR 0x5C, CHR ''U'', CHR ''N'', CHR ''C'', CHR 0x5C]"

text \<open>\<^verbatim>\<open>ntpath.splitdrive(p)\<close>.\<close>

definition nt_splitdrive :: "string \<Rightarrow> string \<times> string" where
  "nt_splitdrive p =
     (if 2 \<le> length p then
        let normp = map (\<lambda>c. if c = CHR ''/'' then CHR 0x5C else c) p
        in if take 2 normp = nt_sep @ nt_sep then
             let start = (if map ascii_upper (take 8 normp) = nt_unc_prefix then 8 else 2)
             in (case nt_find (CHR 0x5C) normp start of
                   None \<Rightarrow> (p, [])
                 | Some index \<Rightarrow>
                     (case nt_find (CHR 0x5C) normp (index + 1) of
                        None \<Rightarrow> (p, [])
                      | Some index2 \<Rightarrow> (take index2 p, drop index2 p)))
           else if take 1 (drop 1 normp) = '':'' then (take 2 p, drop 2 p)
           else ([], p)
      else ([], p))"

text \<open>\<^verbatim>\<open>ntpath.join(path, p)\<close>, with one component after the first.\<close>

definition ntpath_join :: "string \<Rightarrow> string \<Rightarrow> string" where
  "ntpath_join path p =
     (let (result_drive, result_path) = nt_splitdrive path;
          (p_drive, p_path) = nt_splitdrive p;
          (result_drive, result_path) =
            (if p_path \<noteq> [] \<and> hd p_path \<in> set nt_seps then
               (if p_drive \<noteq> [] \<or> result_drive = [] then p_drive else result_drive, p_path)
             else if p_drive \<noteq> [] \<and> p_drive \<noteq> result_drive
                     \<and> map py_lower_char p_drive \<noteq> map py_lower_char result_drive then
               (p_drive, p_path)
             else
               let result_drive =
                     (if p_drive \<noteq> [] \<and> p_drive \<noteq> result_drive then p_drive
                      else result_drive);
                   result_path =
                     (if result_path \<noteq> [] \<and> last result_path \<notin> set nt_seps
                      then result_path @ nt_sep else result_path)
               in (result_drive, result_path @ p_path))
      in if result_path \<noteq> [] \<and> hd result_path \<notin> set nt_seps
            \<and> result_drive \<noteq> [] \<and> last result_drive \<noteq> CHR '':''
         then result_drive @ nt_sep @ result_path
         else result_drive @ result_path)"

subsection \<open>Shell-word splitting and quoting\<close>

text \<open>
  \<^verbatim>\<open>shlex.split(s, posix=p)\<close> of the Python standard library: a lexer with
  \<^verbatim>\<open>whitespace_split = True\<close>, no comment characters and no punctuation
  characters. With these settings a word character and any other character that is
  neither whitespace, a quote nor an escape are treated alike, so the lexer's tests on
  \<^verbatim>\<open>wordchars\<close>, \<^verbatim>\<open>commenters\<close> and \<^verbatim>\<open>punctuation_chars\<close> are left out.
  The lexer state is \<open>None\<close> past the end of the input, and otherwise the character
  that \<^verbatim>\<open>shlex\<close> stores: a blank between tokens, \<open>a\<close> inside a word, the open
  quote inside quotes, the backslash after an escape.
\<close>

definition shlex_whitespace :: string where
  "shlex_whitespace = [CHR 0x20, CHR 0x09, CHR 0x0D, CHR 0x0A]"

definition shlex_quotes :: string where
  "shlex_quotes = [CHR 0x27, CHR 0x22]"

definition shlex_escape :: string where
  "shlex_escape = [CHR 0x5C]"

definition shlex_escapedquotes :: string where
  "shlex_escapedquotes = [CHR 0x22]"

text \<open>The value \<^verbatim>\<open>read_token\<close> returns: \<open>None\<close> for an unquoted empty token in POSIX mode.\<close>

definition token_result :: "bool \<Rightarrow> bool \<Rightarrow> string \<Rightarrow> string option" where
  "token_result posix quoted token =
     (if posix \<and> \<not> quoted \<and> token = [] then None else Some token)"

text \<open>
  \<^verbatim>\<open>shlex.read_token\<close>: one call of the loop body per character read. The arguments
  are the mode, the lexer state, the token so far, \<^verbatim>\<open>quoted\<close>, \<^verbatim>\<open>escapedstate\<close>
  and the unread input; the result is the token, the new lexer state and the input left.
\<close>

fun read_token ::
  "bool \<Rightarrow> char option \<Rightarrow> string \<Rightarrow> bool \<Rightarrow> char \<Rightarrow> string
     \<Rightarrow> pyerr + (string option \<times> char option \<times> string)" where
  "read_token posix state token quoted esc [] =
     (case state of
        None \<Rightarrow> Inr (token_result posix quoted [], None, [])
      | Some s \<Rightarrow>
          if s = CHR 0x20 then Inr (token_result posix quoted token, None, [])
          else if s \<in> set shlex_quotes then Inl (ValueError ''No closing quotation'')
          else if s \<in> set shlex_escape then Inl (ValueError ''No escaped character'')
          else Inr (token_result posix quoted token, None, []))"
| "read_token posix state token quoted esc (c # cs) =
     (case state of
        None \<Rightarrow> Inr (token_result posix quoted [], None, cs)
      | Some s \<Rightarrow>
          if s = CHR 0x20 then
            (if c \<in> set shlex_whitespace then
               (if token \<noteq> [] \<or> (posix \<and> quoted)
                then Inr (token_result posix quoted token, state, cs)
                else read_token posix state token quoted esc cs)
             else if posix \<and> c \<in> set shlex_escape then
               read_token posix (Some c) token quoted (CHR ''a'') cs
             else if c \<in> set shlex_quotes then
               read_token posix (Some c) (if posix then token else [c]) quoted esc cs
             else read_token posix (Some (CHR ''a'')) [c] quoted esc cs)
          else if s \<in> set shlex_quotes then
            (if c = s then
               (if \<not> posix
                then Inr (token_result posix True (token @ [c]), Some (CHR 0x20), cs)
                else read_token posix (Some (CHR ''a'')) token True esc cs)
             else if posix \<and> c \<in> set shlex_escape \<and> s \<in> set shlex_escapedquotes then
               read_token posix (Some c) token True s cs
             else read_token posix state (token @ [c]) True esc cs)
          else if s \<in> set shlex_escape then
            read_token posix (Some esc)
              ((if esc \<in> set shlex_quotes \<and> c \<noteq> s \<and> c \<noteq> esc then token @ [s] else token)
                 @ [c])
              quoted esc cs
          else
            (if c \<in> set shlex_whitespace then
               (if token \<noteq> [] \<or> (posix \<and> quoted)
                then Inr (token_result posix quoted token, Some (CHR 0x20), cs)
                else read_token posix (Some (CHR 0x20)) token quoted esc cs)
             else if posix \<and> c \<in> set shlex_quotes then
               read_token posix (Some c) token quoted esc cs
             else if posix \<and> c \<in> set shlex_escape then
               read_token posix (Some c) token quoted (CHR ''a'') cs
             else read_token posix state (token @ [c]) quoted esc cs))"

lemma read_token_rest:
  "read_token posix state token quoted esc inp = Inr (r, state', rest) \<Longrightarrow>
     (inp = [] \<longrightarrow> rest = [] \<and> state' = None) \<and> (inp \<noteq> [] \<longrightarrow> length rest < length inp)"
proof (induction inp arbitrary: state token quoted esc)
  case Nil
  then show ?case by (auto split: option.splits if_splits)
next
  case (Cons c cs)
  have step: "length rest < Suc (length cs)"
    if "read_token posix st tk q e cs = Inr (r, state', rest)" for st tk q e
    using Cons.IH [OF that] by (cases cs) auto
  from Cons.prems show ?case
    by (auto split: option.splits if_splits intro: step)
qed

lemma read_token_eof:
  "read_token posix state [] False esc [] = Inr (Some t, state', rest) \<Longrightarrow>
     posix \<or> t \<noteq> [] \<Longrightarrow> state \<noteq> None"
  by (cases state) (auto simp: token_result_def split: if_splits)

lemma read_token_measure:
  "read_token posix state [] False e inp = Inr (Some t, state', rest) \<Longrightarrow>
     posix \<or> t \<noteq> [] \<Longrightarrow>
     2 * length rest + (if state' = None then 0 else 1)
       < 2 * length inp + (if state = None then 0 else (1::nat))"
  using read_token_rest [of posix state "[]" False e inp "Some t" state' rest]
    read_token_eof [of posix state e t state' rest]
  by (cases inp) (auto split: if_splits)

text \<open>
  The iteration over the lexer: tokens are read until the end-of-file value, which is
  \<open>None\<close> in POSIX mode and the empty string otherwise.
\<close>

function shlex_tokens :: "bool \<Rightarrow> char option \<Rightarrow> string \<Rightarrow> pyerr + string list" where
  "shlex_tokens posix state inp =
     (case read_token posix state [] False (CHR 0x20) inp of
        Inl e \<Rightarrow> Inl e
      | Inr (None, state', rest) \<Rightarrow> Inr []
      | Inr (Some t, state', rest) \<Rightarrow>
          if \<not> posix \<and> t = [] then Inr []
          else (case shlex_tokens posix state' rest of
                  Inl e \<Rightarrow> Inl e
                | Inr ts \<Rightarrow> Inr (t # ts)))"
  by pat_completeness auto
termination
proof (relation "measure (\<lambda>(posix, state, inp). 2 * length inp + (if state = None then 0 else 1))",
    goal_cases)
  case 1
  show ?case by simp
next
  case (2 posix state inp b x y t state' rest)
  then have "read_token posix state [] False (CHR 0x20) inp = Inr (Some t, state', rest)"
    and "posix \<or> t \<noteq> []"
    by auto
  then show ?case
    using read_token_measure [of posix state "CHR 0x20" inp t state' rest] by simp
qed

declare shlex_tokens.simps [simp del]

definition shlex_split :: "bool \<Rightarrow> string \<Rightarrow> pyerr + string list" where
  "shlex_split posix s = shlex_tokens posix (Some (CHR 0x20)) s"

text \<open>\<^verbatim>\<open>shlex.quote(s)\<close>.\<close>

definition shlex_safe :: "char \<Rightarrow> bool" where
  "shlex_safe c =
     (c \<in> set (''abcdefghijklmnopqrstuvwxyzABCDEFGHIJKLMNOPQRSTUVWXYZ0123456789''
                @ ''_@%+=:,./-''))"

definition shlex_quote :: "string \<Rightarrow> string" where
  "shlex_quote s =
     (if s = [] then [CHR 0x27, CHR 0x27]
      else if list_all shlex_safe s then s
      else [CHR 0x27]
           @ concat (map (\<lambda>c. if c = CHR 0x27
                                then [CHR 0x27, CHR 0x22, CHR 0x27, CHR 0x22, CHR 0x27]
                                else [c]) s)
           @ [CHR 0x27])"

text \<open>\<^verbatim>\<open>quote_win(s)\<close>.\<close>

definition quote_win :: "string \<Rightarrow> string" where
  "quote_win s =
     (if list_ex py_isspace s \<or> CHR 0x5C \<in> set s then [CHR 0x22] @ s @ [CHR 0x22] else s)"

section \<open>The configuration model\<close>

text \<open>
  \<^verbatim>\<open>RenderConfig\<close>, with the types of its defaults and of \<^verbatim>\<open>sync_cfg\<close>: strings,
  booleans, ints and one float.
\<close>

record RenderConfig =
  c4d_cmd :: string
  scene_path :: string
  output_dir :: string
  base_name :: string
  format :: string
  override_format :: bool
  override_res :: bool
  res_w :: int
  res_h :: int
  use_duration :: bool
  duration_seconds :: pyfloat
  fps :: int
  start_frame :: int
  end_frame :: int
  renderer :: string
  force_renderer :: bool
  threads :: int
  extra_args :: string

text \<open>
  \<^verbatim>\<open>RenderConfig()\<close>. The argument is the value of \<^verbatim>\<open>guess_c4d_command()\<close>, which
  depends on the platform and on the file system.
\<close>

definition RenderConfig_init :: "string \<Rightarrow> RenderConfig" where
  "RenderConfig_init guess =
     \<lparr>c4d_cmd = guess, scene_path = [], output_dir = [], base_name = ''frame_'',
      format = ''png'', override_format = True, override_res = False,
      res_w = 1920, res_h = 1080, use_duration = True,
      duration_seconds = PFinite 15, fps = 25, start_frame = 0, end_frame = 100,
      renderer = ''Redshift'', force_renderer = True, threads = 0, extra_args = []\<rparr>"

subsection \<open>Presets\<close>

text \<open>
  A preset is a dictionary from attribute names to values, and so is the
  \<^verbatim>\<open>__dict__\<close> of an object. \<open>to_dict\<close> is the copy of the \<^verbatim>\<open>__dict__\<close> of a
  configuration. \<open>from_dict\<close> gives the \<^verbatim>\<open>__dict__\<close> of the object it returns: that
  of a new \<^verbatim>\<open>RenderConfig()\<close>, updated with every entry of the dictionary, of
  whatever type.
\<close>

datatype pyval = PStr string | PBool bool | PInt int | PFloat pyfloat

type_synonym pydict = "string \<rightharpoonup> pyval"

definition to_dict :: "RenderConfig \<Rightarrow> pydict" where
  "to_dict cfg =
     [''c4d_cmd'' \<mapsto> PStr (c4d_cmd cfg),
      ''scene_path'' \<mapsto> PStr (scene_path cfg),
      ''output_dir'' \<mapsto> PStr (output_dir cfg),
      ''base_name'' \<mapsto> PStr (base_name cfg),
      ''format'' \<mapsto> PStr (format cfg),
      ''override_format'' \<mapsto> PBool (override_format cfg),
      ''override_res'' \<mapsto> PBool (override_res cfg),
      ''res_w'' \<mapsto> PInt (res_w cfg),
      ''res_h'' \<mapsto> PInt (res_h cfg),
      ''use_duration'' \<mapsto> PBool (use_duration cfg),
      ''duration_seconds'' \<mapsto> PFloat (duration_seconds cfg),
      ''fps'' \<mapsto> PInt (fps cfg),
      ''start_frame'' \<mapsto> PInt (start_frame cfg),
      ''end_frame'' \<mapsto> PInt (end_frame cfg),
      ''renderer'' \<mapsto> PStr (renderer cfg),
      ''force_renderer'' \<mapsto> PBool (force_renderer cfg),
      ''threads'' \<mapsto> PInt (threads cfg),
      ''extra_args'' \<mapsto> PStr (extra_args cfg)]"

definition from_dict :: "string \<Rightarrow> pydict \<Rightarrow> pydict" where
  "from_dict guess d = to_dict (RenderConfig_init guess) ++ d"

text \<open>Reading an attribute at its documented type.\<close>

definition str_attr :: "pydict \<Rightarrow> string \<Rightarrow> string option" where
  "str_attr d k = (case d k of Some (PStr v) \<Rightarrow> Some v | _ \<Rightarrow> None)"

definition bool_attr :: "pydict \<Rightarrow> string \<Rightarrow> bool option" where
  "bool_attr d k = (case d k of Some (PBool v) \<Rightarrow> Some v | _ \<Rightarrow> None)"

definition int_attr :: "pydict \<Rightarrow> string \<Rightarrow> int option" where
  "int_attr d k = (case d k of Some (PInt v) \<Rightarrow> Some v | _ \<Rightarrow> None)"

definition float_attr :: "pydict \<Rightarrow> string \<Rightarrow> pyfloat option" where
  "float_attr d k = (case d k of Some (PFloat v) \<Rightarrow> Some v | _ \<Rightarrow> None)"

text \<open>
  The configuration an object is, when each of the eighteen attributes is present with a
  value of its documented type.
\<close>

definition config_of :: "pydict \<Rightarrow> RenderConfig option" where
  "config_of d =
     Option.bind (str_attr d ''c4d_cmd'') (\<lambda>a1.
     Option.bind (str_attr d ''scene_path'') (\<lambda>a2.
     Option.bind (str_attr d ''output_dir'') (\<lambda>a3.
     Option.bind (str_attr d ''base_name'') (\<lambda>a4.
     Option.bind (str_attr d ''format'') (\<lambda>a5.
     Option.bind (bool_attr d ''override_format'') (\<lambda>a6.
     Option.bind (bool_attr d ''override_res'') (\<lambda>a7.
     Option.bind (int_attr d ''res_w'') (\<lambda>a8.
     Option.bind (int_attr d ''res_h'') (\<lambda>a9.
     Option.bind (bool_attr d ''use_duration'') (\<lambda>a10.
     Option.bind (float_attr d ''duration_seconds'') (\<lambda>a11.
     Option.bind (int_attr d ''fps'') (\<lambda>a12.
     Option.bind (int_attr d ''start_frame'') (\<lambda>a13.
     Option.bind (int_attr d ''end_frame'') (\<lambda>a14.
     Option.bind (str_attr d ''renderer'') (\<lambda>a15.
     Option.bind (bool_attr d ''force_renderer'') (\<lambda>a16.
     Option.bind (int_attr d ''threads'') (\<lambda>a17.
     Option.bind (str_attr d ''extra_args'') (\<lambda>a18.
       Some \<lparr>c4d_cmd = a1, scene_path = a2, output_dir = a3, base_name = a4,
             format = a5, override_format = a6, override_res = a7,
             res_w = a8, res_h = a9, use_duration = a10,
             duration_seconds = a11, fps = a12, start_frame = a13, end_frame = a14,
             renderer = a15, force_renderer = a16, threads = a17,
             extra_args = a18\<rparr>))))))))))))))))))"

section \<open>The command builder\<close>

text \<open>
  The block \<^verbatim>\<open># RESOLUTION_OVERRIDE\<close> of \<^verbatim>\<open>build_command\<close>: the tokens it
  appends, or the exception that \<^verbatim>\<open>str\<close> raises, the width being converted first.
\<close>

definition resolution_args :: "RenderConfig \<Rightarrow> pyerr + string list" where
  "resolution_args cfg =
     (if override_res cfg then
        (case str_int (res_w cfg) of
           Inl e \<Rightarrow> Inl e
         | Inr w \<Rightarrow>
             (case str_int (res_h cfg) of
                Inl e \<Rightarrow> Inl e
              | Inr h \<Rightarrow> Inr [''-ores'', w, h]))
      else Inr [])"

text \<open>
  The block \<^verbatim>\<open># FRAMES\<close>: the tokens it appends, or the exception it raises.
\<close>

definition frame_args :: "RenderConfig \<Rightarrow> pyerr + string list" where
  "frame_args cfg =
     (if use_duration cfg then
        (case float_mul_int (duration_seconds cfg) (fps cfg) of
           Inl e \<Rightarrow> Inl e
         | Inr x \<Rightarrow>
             (case py_round x of
                Inl e \<Rightarrow> Inl e
              | Inr total_frames \<Rightarrow>
                  (case str_int 0 of
                     Inl e \<Rightarrow> Inl e
                   | Inr a \<Rightarrow>
                       (case str_int total_frames of
                          Inl e \<Rightarrow> Inl e
                        | Inr b \<Rightarrow> Inr [''-frame'', a, b]))))
      else if end_frame cfg < start_frame cfg
        then Inl (ValueError ''End frame must be >= start frame.'')
      else
        (case str_int (start_frame cfg) of
           Inl e \<Rightarrow> Inl e
         | Inr a \<Rightarrow>
             (case str_int (end_frame cfg) of
                Inl e \<Rightarrow> Inl e
              | Inr b \<Rightarrow> Inr [''-frame'', a, b])))"

text \<open>The block \<^verbatim>\<open># THREADS\<close>.\<close>

definition thread_args :: "RenderConfig \<Rightarrow> pyerr + string list" where
  "thread_args cfg =
     (case str_int (threads cfg) of
        Inl e \<Rightarrow> Inl e
      | Inr t \<Rightarrow> Inr [''-threads'', t])"

text \<open>The block \<^verbatim>\<open># EXTRA_ARGS\<close>; \<open>win\<close> is \<^verbatim>\<open>sys.platform.startswith("win")\<close>.\<close>

definition extra_arg_tokens :: "bool \<Rightarrow> RenderConfig \<Rightarrow> pyerr + string list" where
  "extra_arg_tokens win cfg =
     (if py_strip (extra_args cfg) \<noteq> [] then shlex_split (\<not> win) (extra_args cfg)
      else Inr [])"

text \<open>
  \<^verbatim>\<open>build_command(cfg)\<close>. The platform is given by \<open>win\<close> and by \<open>path_join\<close>, the
  \<^verbatim>\<open>os.path.join\<close> of the platform. The result is the exception raised, or the pair
  of the token list and the display string. The blocks run in the order of the source, so
  the first exception in this order is the one raised.
\<close>

definition build_command ::
  "bool \<Rightarrow> (string \<Rightarrow> string \<Rightarrow> string) \<Rightarrow> RenderConfig \<Rightarrow> pyerr + (string list \<times> string)" where
  "build_command win path_join cfg =
     (let cmd = (if c4d_cmd cfg \<noteq> [] then [c4d_cmd cfg] else []);
          cmd = cmd @ (if force_renderer cfg \<and> renderer cfg \<noteq> []
                       then [''-renderer'', renderer cfg] else [])
      in if scene_path cfg = [] then Inl (ValueError ''Scene path is required.'')
         else
           let cmd = cmd @ [''-render'', scene_path cfg]
           in if output_dir cfg = [] then Inl (ValueError ''Output directory is required.'')
              else
                let base = (if base_name cfg \<noteq> [] then base_name cfg else ''frame_'');
                    oimage = path_join (output_dir cfg) base;
                    cmd = cmd @ [''-oimage'', oimage];
                    cmd = cmd @ (if override_format cfg \<and> format cfg \<noteq> []
                                 then [''-ofmt'', format cfg] else [])
                in case resolution_args cfg of
                     Inl e \<Rightarrow> Inl e
                   | Inr res \<Rightarrow>
                       let cmd = cmd @ res
                       in case frame_args cfg of
                            Inl e \<Rightarrow> Inl e
                          | Inr frame \<Rightarrow>
                              let cmd = cmd @ frame
                              in case thread_args cfg of
                                   Inl e \<Rightarrow> Inl e
                                 | Inr thr \<Rightarrow>
                                     let cmd = cmd @ thr
                                     in case extra_arg_tokens win cfg of
                                          Inl e \<Rightarrow> Inl e
                                        | Inr extra \<Rightarrow>
                                            let cmd = cmd @ extra;
                                                pretty = py_join '' ''
                                                  (map (if win then quote_win else shlex_quote)
                                                     cmd)
                                            in Inr (cmd, pretty))"

subsection \<open>The token groups of the specification\<close>

text \<open>
  The specification of the command builder lists the groups of tokens in the order of
  emission (its steps 1 to 8 and 10). The definitions below follow that list, one per
  group; the theorems compare them with what \<open>build_command\<close> computes. The numbers
  are written in decimal.
\<close>

definition exe_tokens :: "RenderConfig \<Rightarrow> string list" where
  "exe_tokens cfg = (if c4d_cmd cfg = [] then [] else [c4d_cmd cfg])"

definition renderer_tokens :: "RenderConfig \<Rightarrow> string list" where
  "renderer_tokens cfg =
     (if force_renderer cfg \<and> renderer cfg \<noteq> [] then [''-renderer'', renderer cfg] else [])"

definition scene_tokens :: "RenderConfig \<Rightarrow> string list" where
  "scene_tokens cfg = [''-render'', scene_path cfg]"

definition output_stem :: "(string \<Rightarrow> string \<Rightarrow> string) \<Rightarrow> RenderConfig \<Rightarrow> string" where
  "output_stem path_join cfg =
     path_join (output_dir cfg) (if base_name cfg = [] then ''frame_'' else base_name cfg)"

definition output_tokens :: "(string \<Rightarrow> string \<Rightarrow> string) \<Rightarrow> RenderConfig \<Rightarrow> string list" where
  "output_tokens path_join cfg = [''-oimage'', output_stem path_join cfg]"

definition format_tokens :: "RenderConfig \<Rightarrow> string list" where
  "format_tokens cfg =
     (if override_format cfg \<and> format cfg \<noteq> [] then [''-ofmt'', format cfg] else [])"

definition resolution_tokens :: "RenderConfig \<Rightarrow> string list" where
  "resolution_tokens cfg =
     (if override_res cfg then [''-ores'', decimal (res_w cfg), decimal (res_h cfg)] else [])"

definition thread_tokens :: "RenderConfig \<Rightarrow> string list" where
  "thread_tokens cfg = [''-threads'', decimal (threads cfg)]"

text \<open>The tokens that precede the frame range.\<close>

definition leading_tokens :: "(string \<Rightarrow> string \<Rightarrow> string) \<Rightarrow> RenderConfig \<Rightarrow> string list" where
  "leading_tokens path_join cfg =
     exe_tokens cfg @ renderer_tokens cfg @ scene_tokens cfg @ output_tokens path_join cfg
       @ format_tokens cfg @ resolution_tokens cfg"

text \<open>The display string of a token list.\<close>

definition display_string :: "bool \<Rightarrow> string list \<Rightarrow> string" where
  "display_string win cmd = py_join '' '' (map (if win then quote_win else shlex_quote) cmd)"

text \<open>
  The condition under which the block of the resolution raises nothing: the resolution
  is not overridden, or \<^verbatim>\<open>str\<close> converts both the width and the height.
\<close>

definition resolution_within_limit :: "RenderConfig \<Rightarrow> bool" where
  "resolution_within_limit cfg =
     (\<not> override_res cfg \<or> (within_str_limit (res_w cfg) \<and> within_str_limit (res_h cfg)))"

section \<open>The process runner\<close>

text \<open>
  The worker of \<^verbatim>\<open>run_command_async\<close>, as sequential code. What
  \<^verbatim>\<open>subprocess.Popen\<close> and the process do is an input of the model.
  \<^verbatim>\<open>Popen\<close> raises \<^verbatim>\<open>FileNotFoundError\<close>, or it raises another exception with
  a message, or it starts a process. Reading the next line of the output of the process
  gives a line, or raises UnicodeDecodeError when the bytes are not text in the encoding
  of the locale. \<open>Process reads code\<close> is a process whose output is read as \<open>reads\<close>
  up to its end, and which then exits with \<open>code\<close>; with \<open>None\<close> for the code the
  process neither writes more nor exits, and the worker waits for ever.
\<close>

datatype read = Line string | Undecodable string

datatype popen_result =
  FileNotFoundError
  | OtherException string
  | Process "read list" "int option"

text \<open>
  A sink is called with a value and the state of the caller; it gives the new state, and
  the exception it raises, if any. A run of the worker is the list of the calls of the
  sinks in the order in which they were made, the last state, and how the worker ended:
  it returned, an exception left it, or it never returned. The thread that runs the
  worker is not modelled: an exception that leaves the worker ends the thread, and never
  reaches the caller of \<^verbatim>\<open>run_command_async\<close>.
\<close>

datatype callback = Output string | Done int

datatype ending = Returned | Raised pyerr | Blocked

type_synonym 's run = "callback list \<times> 's \<times> ending"

definition calls :: "'s run \<Rightarrow> callback list" where
  "calls r = fst r"

definition ending_of :: "'s run \<Rightarrow> ending" where
  "ending_of r = snd (snd r)"

text \<open>\<^verbatim>\<open>on_done(code)\<close> as the last statement of the worker.\<close>

definition call_done ::
  "(int \<Rightarrow> 's \<Rightarrow> 's \<times> pyerr option) \<Rightarrow> int \<Rightarrow> callback list \<Rightarrow> 's \<Rightarrow> 's run" where
  "call_done on_done code tr s =
     (case on_done code s of
        (s', Some e) \<Rightarrow> (tr @ [Done code], s', Raised e)
      | (s', None) \<Rightarrow> (tr @ [Done code], s', Returned))"

text \<open>The body of the two handlers: \<^verbatim>\<open>on_output(msg); on_done(1); return\<close>.\<close>

definition report_failure ::
  "(string \<Rightarrow> 's \<Rightarrow> 's \<times> pyerr option) \<Rightarrow> (int \<Rightarrow> 's \<Rightarrow> 's \<times> pyerr option)
     \<Rightarrow> string \<Rightarrow> 's \<Rightarrow> 's run" where
  "report_failure on_output on_done msg s =
     (case on_output msg s of
        (s', Some e) \<Rightarrow> ([Output msg], s', Raised e)
      | (s', None) \<Rightarrow> call_done on_done 1 [Output msg] s')"

text \<open>
  The loop \<^verbatim>\<open>for line in proc.stdout: on_output(line)\<close>: the calls made, the state,
  and the exception that ended the loop, if any.
\<close>

fun forward_output ::
  "(string \<Rightarrow> 's \<Rightarrow> 's \<times> pyerr option) \<Rightarrow> read list \<Rightarrow> callback list \<Rightarrow> 's
     \<Rightarrow> callback list \<times> 's \<times> pyerr option" where
  "forward_output on_output [] tr s = (tr, s, None)"
| "forward_output on_output (Undecodable msg # rs) tr s = (tr, s, Some (UnicodeDecodeError msg))"
| "forward_output on_output (Line l # rs) tr s =
     (case on_output l s of
        (s', Some e) \<Rightarrow> (tr @ [Output l], s', Some e)
      | (s', None) \<Rightarrow> forward_output on_output rs (tr @ [Output l]) s')"

definition worker ::
  "popen_result \<Rightarrow> (string \<Rightarrow> 's \<Rightarrow> 's \<times> pyerr option) \<Rightarrow> (int \<Rightarrow> 's \<Rightarrow> 's \<times> pyerr option)
     \<Rightarrow> 's \<Rightarrow> 's run" where
  "worker p on_output on_done s =
     (case p of
        FileNotFoundError \<Rightarrow>
          report_failure on_output on_done
            (''ERROR: Commandline executable not found.'' @ [CHR 0x0A]) s
      | OtherException e \<Rightarrow>
          report_failure on_output on_done (''ERROR: '' @ e @ [CHR 0x0A]) s
      | Process reads code \<Rightarrow>
          (case forward_output on_output reads [] s of
             (tr, s', Some e) \<Rightarrow> (tr, s', Raised e)
           | (tr, s', None) \<Rightarrow>
               (case code of
                  None \<Rightarrow> (tr, s', Blocked)
                | Some ret \<Rightarrow> call_done on_done ret tr s')))"

fun is_done :: "callback \<Rightarrow> bool" where
  "is_done (Done _) = True"
| "is_done (Output _) = False"

text \<open>Sinks that return, and a sink that raises.\<close>

definition quiet_output :: "string \<Rightarrow> unit \<Rightarrow> unit \<times> pyerr option" where
  "quiet_output line s = (s, None)"

definition quiet_done :: "int \<Rightarrow> unit \<Rightarrow> unit \<times> pyerr option" where
  "quiet_done code s = (s, None)"

definition raising_output :: "string \<Rightarrow> unit \<Rightarrow> unit \<times> pyerr option" where
  "raising_output line s = (s, Some (RuntimeError ''main thread is not in main loop''))"

subsection \<open>A sample configuration\<close>

text \<open>
  The configuration of the example in the specification: the defaults of
  \<^verbatim>\<open>RenderConfig()\<close> with the scene \<^verbatim>\<open>/s.c4d\<close>, the output directory
  \<^verbatim>\<open>/out\<close>, the base name \<^verbatim>\<open>f_\<close>, the format \<^verbatim>\<open>exr\<close> with its override, and
  a duration of 2.0 seconds at 25 frames per second with 0 threads.
\<close>

definition example_config :: "string \<Rightarrow> RenderConfig" where
  "example_config guess =
     (RenderConfig_init guess)
       \<lparr>scene_path := ''/s.c4d'', output_dir := ''/out'', base_name := ''f_'',
        override_format := True, format := ''exr'', use_duration := True,
        duration_seconds := PFinite 2, fps := 25, threads := 0\<rparr>"

section \<open>Validation errors of the command builder\<close>

text \<open>
  Claim C4. When the scene path is empty, or the output directory is empty,
  \<open>build_command\<close> raises a \<open>ValueError\<close>: the result is an exception, so no token
  list, whole or partial, is returned. The message is the one of the scene path when
  the scene path is empty, and the one of the output directory otherwise.
\<close>

theorem build_command_missing_path:
  "scene_path cfg = [] \<or> output_dir cfg = [] \<Longrightarrow>
     build_command win path_join cfg =
       Inl (ValueError (if scene_path cfg = [] then ''Scene path is required.''
                        else ''Output directory is required.''))"
  by (auto simp: build_command_def Let_def)

theorem build_command_missing_path_witness:
  "(scene_path (RenderConfig_init ''c4d'') = [] \<or> output_dir (RenderConfig_init ''c4d'') = [])
   \<and> build_command False posixpath_join (RenderConfig_init ''c4d'')
       = Inl (ValueError ''Scene path is required.'')
   \<and> (scene_path ((RenderConfig_init ''c4d'')\<lparr>scene_path := ''/s.c4d''\<rparr>) = []
        \<or> output_dir ((RenderConfig_init ''c4d'')\<lparr>scene_path := ''/s.c4d''\<rparr>) = [])
   \<and> build_command False posixpath_join ((RenderConfig_init ''c4d'')\<lparr>scene_path := ''/s.c4d''\<rparr>)
       = Inl (ValueError ''Output directory is required.'')"
  using build_command_missing_path [of "RenderConfig_init ''c4d''" False posixpath_join]
    build_command_missing_path
      [of "(RenderConfig_init ''c4d'')\<lparr>scene_path := ''/s.c4d''\<rparr>" False posixpath_join]
  by (simp add: RenderConfig_init_def)

text \<open>
  Claim C10. When both the scene path and the output directory are empty,
  \<open>build_command\<close> raises the error of the scene path, with the message
  \<^verbatim>\<open>Scene path is required.\<close>, and not the error of the output directory: the scene
  path is checked first.
\<close>

theorem scene_error_first:
  "scene_path cfg = [] \<Longrightarrow> output_dir cfg = [] \<Longrightarrow>
     build_command win path_join cfg = Inl (ValueError ''Scene path is required.'')
     \<and> build_command win path_join cfg \<noteq> Inl (ValueError ''Output directory is required.'')"
  by (simp add: build_command_def Let_def)

theorem scene_error_first_witness:
  "scene_path (RenderConfig_init []) = [] \<and> output_dir (RenderConfig_init []) = []
   \<and> build_command True posixpath_join (RenderConfig_init [])
       = Inl (ValueError ''Scene path is required.'')"
  using scene_error_first [of "RenderConfig_init []" True posixpath_join]
  by (simp add: RenderConfig_init_def)

section \<open>Presets\<close>

lemma dom_to_dict: "dom (to_dict a) = dom (to_dict b)"
  by (simp add: to_dict_def)

lemma from_dict_to_dict: "from_dict guess (to_dict cfg) = to_dict cfg"
proof -
  have "dom (to_dict (RenderConfig_init guess)) \<subseteq> dom (to_dict cfg)"
    using dom_to_dict by blast
  then show ?thesis
    unfolding from_dict_def
    by (auto simp: map_add_def fun_eq_iff split: option.splits)
qed

lemma config_of_to_dict: "config_of (to_dict cfg) = Some cfg"
  by (simp add: config_of_def to_dict_def str_attr_def bool_attr_def int_attr_def
      float_attr_def)

text \<open>
  Claim C5. For every configuration, of any field values of the documented types,
  serialising it with \<open>to_dict\<close> and deserialising the result with \<open>from_dict\<close> gives an
  object that is a configuration equal to the original one in every field, whatever
  executable path the new \<^verbatim>\<open>RenderConfig()\<close> guessed.
\<close>

theorem preset_round_trip: "config_of (from_dict guess (to_dict cfg)) = Some cfg"
  by (simp add: from_dict_to_dict config_of_to_dict)

section \<open>The conversion of ints to strings\<close>

text \<open>
  An int below \<open>10 ^ k\<close> has at most \<open>k\<close> digits, and one from \<open>10 ^ k\<close> on has
  more; so \<^verbatim>\<open>str\<close> raises exactly from \<open>10 ^ 4300\<close> on, in magnitude.
\<close>

lemma digits_length_le: "n < 10 ^ k \<Longrightarrow> 0 < k \<Longrightarrow> length (digits n) \<le> k"
proof (induction k arbitrary: n)
  case 0
  then show ?case by simp
next
  case (Suc k)
  show ?case
  proof (cases "n < 10")
    case True
    then have "digits n = [''0123456789'' ! n]"
      by (subst digits.simps) simp
    then show ?thesis by simp
  next
    case False
    with Suc.prems have k: "0 < k"
      by (cases k) auto
    from Suc.prems have "n div 10 < 10 ^ k"
      by (simp add: less_mult_imp_div_less mult.commute)
    from Suc.IH [OF this k] have "length (digits (n div 10)) \<le> k" .
    moreover from False
    have "digits n = digits (n div 10) @ [''0123456789'' ! (n mod 10)]"
      by (subst digits.simps) simp
    ultimately show ?thesis by simp
  qed
qed

lemma digits_length_gt: "10 ^ k \<le> n \<Longrightarrow> k < length (digits n)"
proof (induction k arbitrary: n)
  case 0
  show ?case
    by (subst digits.simps) simp
next
  case (Suc k)
  then have ge: "\<not> n < 10"
    by (metis le_eq_less_or_eq linorder_not_less one_le_numeral one_le_power
        order_less_le_trans power_Suc mult.right_neutral mult_le_mono2)
  from Suc.prems have "10 ^ k \<le> n div 10"
    by (simp add: div_le_mono)
  from Suc.IH [OF this] have "k < length (digits (n div 10))" .
  moreover from ge
  have "digits n = digits (n div 10) @ [''0123456789'' ! (n mod 10)]"
    by (subst digits.simps) simp
  ultimately show ?case by simp
qed

lemma within_str_limit_iff: "within_str_limit i \<longleftrightarrow> \<bar>i\<bar> < 10 ^ int_max_str_digits"
proof
  assume "within_str_limit i"
  then have le: "length (digits (nat \<bar>i\<bar>)) \<le> int_max_str_digits"
    by (simp add: within_str_limit_def)
  have "nat \<bar>i\<bar> < 10 ^ int_max_str_digits"
  proof (rule ccontr)
    assume "\<not> nat \<bar>i\<bar> < 10 ^ int_max_str_digits"
    then have "10 ^ int_max_str_digits \<le> nat \<bar>i\<bar>"
      by simp
    from digits_length_gt [OF this] le show False
      by simp
  qed
  then show "\<bar>i\<bar> < 10 ^ int_max_str_digits"
    by (metis nat_less_iff abs_ge_zero of_nat_numeral of_nat_power)
next
  assume "\<bar>i\<bar> < 10 ^ int_max_str_digits"
  then have "nat \<bar>i\<bar> < 10 ^ int_max_str_digits"
    by (metis nat_less_iff abs_ge_zero of_nat_numeral of_nat_power)
  moreover have "0 < int_max_str_digits"
    by (simp add: int_max_str_digits_def)
  ultimately show "within_str_limit i"
    unfolding within_str_limit_def by (rule digits_length_le)
qed

lemma str_int_ok: "within_str_limit i \<Longrightarrow> str_int i = Inr (decimal i)"
  by (simp add: str_int_def within_str_limit_def)

lemma str_int_Inr: "str_int i = Inr t \<Longrightarrow> t = decimal i"
  by (simp add: str_int_def split: if_splits)

lemma str_int_Inl: "str_int i = Inl e \<Longrightarrow> \<exists>m. e = ValueError m"
  by (auto simp: str_int_def str_limit_error_def split: if_splits)

lemma str_int_raises: "\<not> within_str_limit i \<Longrightarrow> str_int i = Inl str_limit_error"
  by (simp add: str_int_def within_str_limit_def)

lemma within_str_limit_small: "\<bar>i\<bar> < 10 \<Longrightarrow> within_str_limit i"
proof -
  assume "\<bar>i\<bar> < 10"
  then have "nat \<bar>i\<bar> < 10"
    by simp
  then have "digits (nat \<bar>i\<bar>) = [''0123456789'' ! (nat \<bar>i\<bar>)]"
    by (subst digits.simps) simp
  then show ?thesis
    by (simp add: within_str_limit_def int_max_str_digits_def)
qed

lemma not_within_str_limit: "\<not> within_str_limit (10 ^ int_max_str_digits)"
  by (simp add: within_str_limit_iff)

lemma str_int_0: "str_int 0 = Inr ''0''"
  by (simp add: str_int_def decimal_def digits.simps int_max_str_digits_def)

text \<open>
  The product of two floats is below \<open>2 ^ 1024\<close> in magnitude when it is finite; so the
  frame count of the duration mode is an int that \<^verbatim>\<open>str\<close> converts.
\<close>

lemma fround_bound: "fround r = PFinite v \<Longrightarrow> \<bar>v\<bar> < 2 ^ 1024"
  unfolding fround_def Let_def by (auto split: if_splits)

lemma float_mul_bound: "float_mul x y = PFinite v \<Longrightarrow> \<bar>v\<bar> < 2 ^ 1024"
  by (cases x; cases y) (auto dest: fround_bound split: if_splits)

lemma float_mul_int_bound: "float_mul_int x i = Inr (PFinite v) \<Longrightarrow> \<bar>v\<bar> < 2 ^ 1024"
  by (auto simp: float_mul_int_def dest: float_mul_bound split: sum.splits)

lemma round_half_even_range:
  "\<lfloor>r\<rfloor> \<le> round_half_even r \<and> round_half_even r \<le> \<lfloor>r\<rfloor> + 1"
  by (simp add: round_half_even_def Let_def)

lemma round_half_even_bound:
  assumes "\<bar>v\<bar> < of_int B"
  shows "\<bar>round_half_even v\<bar> \<le> B"
proof -
  from assms have "v < of_int B" and "of_int (- B) < v"
    by auto
  then have "\<lfloor>v\<rfloor> < B" and "- B \<le> \<lfloor>v\<rfloor>"
    by (simp_all add: floor_less_iff le_floor_iff less_imp_le)
  with round_half_even_range [of v] show ?thesis
    by linarith
qed

lemma rounded_within_limit:
  assumes "float_mul_int x i = Inr y" and "py_round y = Inr n"
  shows "within_str_limit n"
proof -
  from assms(2) obtain v where y: "y = PFinite v" and n: "n = round_half_even v"
    by (cases y) auto
  from assms(1) have "float_mul_int x i = Inr (PFinite v)"
    unfolding y .
  then have "\<bar>v\<bar> < 2 ^ 1024"
    by (rule float_mul_int_bound)
  then have "\<bar>v\<bar> < of_int (2 ^ 1024)"
    by simp
  from round_half_even_bound [OF this] n have "\<bar>n\<bar> \<le> 2 ^ 1024"
    by simp
  moreover have "(2::int) ^ 1024 < 10 ^ 1024"
    by (rule power_strict_mono) simp_all
  moreover have "(10::int) ^ 1024 \<le> 10 ^ int_max_str_digits"
    unfolding int_max_str_digits_def by (rule power_increasing) simp_all
  ultimately have "\<bar>n\<bar> < 10 ^ int_max_str_digits"
    by linarith
  then show ?thesis
    by (simp add: within_str_limit_iff)
qed

section \<open>The command that is built\<close>

lemma resolution_args_ok:
  "resolution_within_limit cfg \<Longrightarrow> resolution_args cfg = Inr (resolution_tokens cfg)"
  by (auto simp: resolution_within_limit_def resolution_args_def resolution_tokens_def
      str_int_ok)

lemma resolution_args_Inr:
  "resolution_args cfg = Inr res \<Longrightarrow> res = resolution_tokens cfg"
  by (auto simp: resolution_args_def resolution_tokens_def dest: str_int_Inr
      split: if_splits sum.splits)

lemma resolution_args_Inl: "resolution_args cfg = Inl e \<Longrightarrow> \<exists>m. e = ValueError m"
  by (auto simp: resolution_args_def dest: str_int_Inl split: if_splits sum.splits)

lemma thread_args_ok:
  "within_str_limit (threads cfg) \<Longrightarrow> thread_args cfg = Inr (thread_tokens cfg)"
  by (simp add: thread_args_def thread_tokens_def str_int_ok)

lemma thread_args_Inr: "thread_args cfg = Inr thr \<Longrightarrow> thr = thread_tokens cfg"
  by (auto simp: thread_args_def thread_tokens_def dest: str_int_Inr split: sum.splits)

text \<open>
  Once the scene path and the output directory are present, \<open>build_command\<close> is
  decided by the four blocks that can raise, in their order: the resolution, the frames,
  the threads and the extra arguments. It raises what the first failing block raises,
  and otherwise returns the leading tokens, the frame tokens, the thread tokens and the
  extra tokens, in this order.
\<close>

lemma build_command_unfold:
  assumes "scene_path cfg \<noteq> []" and "output_dir cfg \<noteq> []"
  shows "build_command win path_join cfg =
       (case resolution_args cfg of
          Inl e \<Rightarrow> Inl e
        | Inr res \<Rightarrow>
            (case frame_args cfg of
               Inl e \<Rightarrow> Inl e
             | Inr frame \<Rightarrow>
                 (case thread_args cfg of
                    Inl e \<Rightarrow> Inl e
                  | Inr thr \<Rightarrow>
                      (case extra_arg_tokens win cfg of
                         Inl e \<Rightarrow> Inl e
                       | Inr extra \<Rightarrow>
                           Inr (leading_tokens path_join cfg @ frame @ thread_tokens cfg @ extra,
                                display_string win
                                  (leading_tokens path_join cfg @ frame @ thread_tokens cfg
                                     @ extra))))))"
proof (cases "resolution_args cfg")
  case (Inl e)
  with assms show ?thesis by (simp add: build_command_def Let_def)
next
  case rs: (Inr res)
  note res = resolution_args_Inr [OF rs]
  show ?thesis
  proof (cases "frame_args cfg")
    case (Inl e)
    with assms rs show ?thesis by (simp add: build_command_def Let_def)
  next
    case fr: (Inr frame)
    show ?thesis
    proof (cases "thread_args cfg")
      case (Inl e)
      with assms rs fr show ?thesis by (simp add: build_command_def Let_def)
    next
      case th: (Inr thr)
      note thr = thread_args_Inr [OF th]
      show ?thesis
      proof (cases "extra_arg_tokens win cfg")
        case (Inl e)
        with assms rs fr th show ?thesis by (simp add: build_command_def Let_def)
      next
        case (Inr extra)
        with assms rs fr th res thr show ?thesis
          by (simp add: build_command_def Let_def leading_tokens_def exe_tokens_def
              renderer_tokens_def scene_tokens_def output_tokens_def output_stem_def
              format_tokens_def display_string_def)
      qed
    qed
  qed
qed

lemma build_command_Inr:
  assumes "build_command win path_join cfg = Inr (cmd, pretty)"
  shows "scene_path cfg \<noteq> [] \<and> output_dir cfg \<noteq> [] \<and>
         (\<exists>frame extra. frame_args cfg = Inr frame \<and> extra_arg_tokens win cfg = Inr extra \<and>
            cmd = leading_tokens path_join cfg @ frame @ thread_tokens cfg @ extra)"
proof -
  have s: "scene_path cfg \<noteq> []"
    using assms by (auto simp: build_command_def Let_def)
  have o: "output_dir cfg \<noteq> []"
    using assms s by (auto simp: build_command_def Let_def)
  from assms obtain res where rs: "resolution_args cfg = Inr res"
    unfolding build_command_unfold [OF s o] by (cases "resolution_args cfg") auto
  from assms rs obtain frame where fr: "frame_args cfg = Inr frame"
    unfolding build_command_unfold [OF s o] by (cases "frame_args cfg") auto
  from assms rs fr obtain thr where th: "thread_args cfg = Inr thr"
    unfolding build_command_unfold [OF s o] by (cases "thread_args cfg") auto
  from assms rs fr th obtain extra where ex: "extra_arg_tokens win cfg = Inr extra"
    unfolding build_command_unfold [OF s o] by (cases "extra_arg_tokens win cfg") auto
  from assms rs fr th ex
  have "cmd = leading_tokens path_join cfg @ frame @ thread_tokens cfg @ extra"
    unfolding build_command_unfold [OF s o] by simp
  with s o fr ex show ?thesis by blast
qed

lemma build_command_ok:
  assumes "scene_path cfg \<noteq> []" and "output_dir cfg \<noteq> []"
    and "resolution_within_limit cfg"
    and "frame_args cfg = Inr frame"
    and "within_str_limit (threads cfg)"
    and "extra_arg_tokens win cfg = Inr extra"
  shows "build_command win path_join cfg =
           Inr (leading_tokens path_join cfg @ frame @ thread_tokens cfg @ extra,
                display_string win
                  (leading_tokens path_join cfg @ frame @ thread_tokens cfg @ extra))"
  using resolution_args_ok [OF assms(3)] assms(4) thread_args_ok [OF assms(5)] assms(6)
  unfolding build_command_unfold [OF assms(1,2)] by simp

lemma frame_args_shape: "frame_args cfg = Inr frame \<Longrightarrow> \<exists>a b. frame = [''-frame'', a, b]"
  by (auto simp: frame_args_def split: if_splits sum.splits)

lemma shlex_split_example:
  "shlex_split True (''--foo '' @ [CHR 0x22] @ ''bar baz'' @ [CHR 0x22])
     = Inr [''--foo'', ''bar baz'']"
  by code_simp

lemma product_2_25: "float_mul_int (PFinite 2) 25 = Inr (PFinite 50)"
  by (simp add: float_mul_int_def float_of_int_def fround_def
      ilog2_def bitlen.simps pow2_def round_half_even_def Let_def)

lemma round_50: "py_round (PFinite 50) = Inr 50"
  by (simp add: round_half_even_def Let_def)

lemma str_int_50: "str_int 50 = Inr ''50''"
  by (simp add: str_int_def decimal_def digits.simps int_max_str_digits_def)

lemma frame_args_2_25:
  "use_duration cfg \<Longrightarrow> duration_seconds cfg = PFinite 2 \<Longrightarrow> fps cfg = 25 \<Longrightarrow>
     frame_args cfg = Inr [''-frame'', ''0'', ''50'']"
  by (simp add: frame_args_def product_2_25 round_half_even_def Let_def str_int_0 str_int_50)

lemma frame_args_0_100:
  "\<not> use_duration cfg \<Longrightarrow> start_frame cfg = 0 \<Longrightarrow> end_frame cfg = 100 \<Longrightarrow>
     frame_args cfg = Inr [''-frame'', ''0'', ''100'']"
  by (simp add: frame_args_def str_int_def decimal_def digits.simps int_max_str_digits_def)

lemma example_within_limit:
  "resolution_within_limit (example_config guess)"
  "within_str_limit (threads (example_config guess))"
  by (simp_all add: resolution_within_limit_def example_config_def RenderConfig_init_def
      within_str_limit_small)

text \<open>
  Claim C1. Whenever \<open>build_command\<close> accepts a configuration, the scene path and the
  output directory are not empty and the tokens are, in this fixed order: the executable
  if one is set; the renderer flag and name if the renderer is forced and named; the
  render flag and the scene path; the output flag and the stem; the format flag and the
  format if the format is overridden and set; the resolution flag with the width and the
  height if the resolution is overridden; the frame flag with its two values; the thread
  flag and the count; the tokens of the extra arguments.
\<close>

theorem build_command_token_order:
  assumes "build_command win path_join cfg = Inr (cmd, pretty)"
  shows "scene_path cfg \<noteq> [] \<and> output_dir cfg \<noteq> [] \<and>
     (\<exists>a b extra.
        frame_args cfg = Inr [''-frame'', a, b] \<and> extra_arg_tokens win cfg = Inr extra \<and>
        cmd = exe_tokens cfg @ renderer_tokens cfg @ scene_tokens cfg
              @ output_tokens path_join cfg @ format_tokens cfg @ resolution_tokens cfg
              @ [''-frame'', a, b] @ thread_tokens cfg @ extra)"
proof -
  from build_command_Inr [OF assms] obtain frame extra
    where s: "scene_path cfg \<noteq> []" and o: "output_dir cfg \<noteq> []"
      and fr: "frame_args cfg = Inr frame" and ex: "extra_arg_tokens win cfg = Inr extra"
      and cmd: "cmd = leading_tokens path_join cfg @ frame @ thread_tokens cfg @ extra"
    by blast
  from frame_args_shape [OF fr] obtain a b where ab: "frame = [''-frame'', a, b]"
    by blast
  from cmd ab have "cmd = exe_tokens cfg @ renderer_tokens cfg @ scene_tokens cfg
              @ output_tokens path_join cfg @ format_tokens cfg @ resolution_tokens cfg
              @ [''-frame'', a, b] @ thread_tokens cfg @ extra"
    by (simp add: leading_tokens_def)
  with s o fr ex ab show ?thesis by blast
qed

theorem build_command_token_order_witness:
  "let c = (example_config ''c4d'')\<lparr>override_res := True,
              extra_args := ''--foo '' @ [CHR 0x22] @ ''bar baz'' @ [CHR 0x22]\<rparr>;
       cmd = [''c4d'', ''-renderer'', ''Redshift'', ''-render'', ''/s.c4d'', ''-oimage'',
              ''/out/f_'', ''-ofmt'', ''exr'', ''-ores'', ''1920'', ''1080'', ''-frame'', ''0'',
              ''50'', ''-threads'', ''0'', ''--foo'', ''bar baz'']
   in build_command False posixpath_join c = Inr (cmd, display_string False cmd)
      \<and> scene_path c \<noteq> [] \<and> output_dir c \<noteq> []
      \<and> (\<exists>a b extra.
            frame_args c = Inr [''-frame'', a, b] \<and> extra_arg_tokens False c = Inr extra \<and>
            cmd = exe_tokens c @ renderer_tokens c @ scene_tokens c
                  @ output_tokens posixpath_join c @ format_tokens c @ resolution_tokens c
                  @ [''-frame'', a, b] @ thread_tokens c @ extra)"
proof -
  let ?c = "(example_config ''c4d'')\<lparr>override_res := True,
              extra_args := ''--foo '' @ [CHR 0x22] @ ''bar baz'' @ [CHR 0x22]\<rparr>"
  let ?cmd = "[''c4d'', ''-renderer'', ''Redshift'', ''-render'', ''/s.c4d'', ''-oimage'',
              ''/out/f_'', ''-ofmt'', ''exr'', ''-ores'', ''1920'', ''1080'', ''-frame'', ''0'',
              ''50'', ''-threads'', ''0'', ''--foo'', ''bar baz'']"
  have s: "scene_path ?c \<noteq> []" and o: "output_dir ?c \<noteq> []"
    by (simp_all add: example_config_def)
  have rs: "resolution_within_limit ?c"
    by (simp add: resolution_within_limit_def example_config_def RenderConfig_init_def
        within_str_limit_def digits.simps int_max_str_digits_def)
  have fr: "frame_args ?c = Inr [''-frame'', ''0'', ''50'']"
    by (rule frame_args_2_25) (simp_all add: example_config_def)
  have th: "within_str_limit (threads ?c)"
    by (simp add: example_config_def within_str_limit_small)
  have ex: "extra_arg_tokens False ?c = Inr [''--foo'', ''bar baz'']"
    by code_simp
  have lead: "leading_tokens posixpath_join ?c =
      [''c4d'', ''-renderer'', ''Redshift'', ''-render'', ''/s.c4d'', ''-oimage'',
       ''/out/f_'', ''-ofmt'', ''exr'', ''-ores'', ''1920'', ''1080'']"
    by code_simp
  have thr: "thread_tokens ?c = [''-threads'', ''0'']"
    by code_simp
  have h: "build_command False posixpath_join ?c = Inr (?cmd, display_string False ?cmd)"
    using build_command_ok [OF s o rs fr th ex, of posixpath_join] lead thr by simp
  show ?thesis
    unfolding Let_def using h build_command_token_order [OF h] by blast
qed

text \<open>What \<open>build_command\<close> raises when one of the four blocks raises.\<close>

lemma build_command_resolution_error:
  assumes "scene_path cfg \<noteq> []" and "output_dir cfg \<noteq> []"
    and "resolution_args cfg = Inl e"
  shows "build_command win path_join cfg = Inl e"
  using assms(3) unfolding build_command_unfold [OF assms(1,2)] by simp

lemma build_command_frame_error:
  assumes "scene_path cfg \<noteq> []" and "output_dir cfg \<noteq> []"
    and "resolution_within_limit cfg" and "frame_args cfg = Inl e"
  shows "build_command win path_join cfg = Inl e"
  using resolution_args_ok [OF assms(3)] assms(4)
  unfolding build_command_unfold [OF assms(1,2)] by simp

lemma build_command_thread_error:
  assumes "scene_path cfg \<noteq> []" and "output_dir cfg \<noteq> []"
    and "resolution_within_limit cfg" and "frame_args cfg = Inr frame"
    and "\<not> within_str_limit (threads cfg)"
  shows "build_command win path_join cfg = Inl str_limit_error"
proof -
  from assms(5) have "thread_args cfg = Inl str_limit_error"
    by (simp add: thread_args_def str_int_raises)
  with resolution_args_ok [OF assms(3)] assms(4) show ?thesis
    unfolding build_command_unfold [OF assms(1,2)] by simp
qed

lemma build_command_extra_error:
  assumes "scene_path cfg \<noteq> []" and "output_dir cfg \<noteq> []"
    and "resolution_within_limit cfg" and "frame_args cfg = Inr frame"
    and "within_str_limit (threads cfg)" and "extra_arg_tokens win cfg = Inl e"
  shows "build_command win path_join cfg = Inl e"
  using resolution_args_ok [OF assms(3)] assms(4) thread_args_ok [OF assms(5)] assms(6)
  unfolding build_command_unfold [OF assms(1,2)] by simp

lemma resolution_args_raises:
  "override_res cfg \<Longrightarrow> \<not> within_str_limit (res_w cfg) \<Longrightarrow>
     resolution_args cfg = Inl str_limit_error"
  by (simp add: resolution_args_def str_int_raises)

section \<open>The example of the specification\<close>

text \<open>
  Claim C6 as stated names the stem \<^verbatim>\<open>/out/f_\<close> on every platform. On Windows,
  where \<^verbatim>\<open>os.path.join\<close> is the one of \<^verbatim>\<open>ntpath\<close>, the command of the example is
  built, but the token after the output flag is \<^verbatim>\<open>/out\<close>, a backslash and
  \<^verbatim>\<open>f_\<close>; the stem \<^verbatim>\<open>/out/f_\<close> is not a token of the command.
\<close>

theorem windows_output_stem:
  "build_command True ntpath_join (example_config []) =
     Inr ([''-renderer'', ''Redshift'', ''-render'', ''/s.c4d'', ''-oimage'',
           ''/out'' @ [CHR 0x5C] @ ''f_'', ''-ofmt'', ''exr'', ''-frame'', ''0'', ''50'',
           ''-threads'', ''0''],
          display_string True
            [''-renderer'', ''Redshift'', ''-render'', ''/s.c4d'', ''-oimage'',
             ''/out'' @ [CHR 0x5C] @ ''f_'', ''-ofmt'', ''exr'', ''-frame'', ''0'', ''50'',
             ''-threads'', ''0''])
   \<and> ''/out/f_'' \<notin> set [''-renderer'', ''Redshift'', ''-render'', ''/s.c4d'', ''-oimage'',
           ''/out'' @ [CHR 0x5C] @ ''f_'', ''-ofmt'', ''exr'', ''-frame'', ''0'', ''50'',
           ''-threads'', ''0'']"
proof -
  let ?c = "example_config []"
  have s: "scene_path ?c \<noteq> []" and o: "output_dir ?c \<noteq> []"
    by (simp_all add: example_config_def)
  have fr: "frame_args ?c = Inr [''-frame'', ''0'', ''50'']"
    by (rule frame_args_2_25) (simp_all add: example_config_def)
  have ex: "extra_arg_tokens True ?c = Inr []"
    by (simp add: extra_arg_tokens_def example_config_def RenderConfig_init_def py_strip_def)
  have j: "ntpath_join ''/out'' ''f_'' = ''/out'' @ [CHR 0x5C] @ ''f_''"
    by code_simp
  have lead: "leading_tokens ntpath_join ?c =
      [''-renderer'', ''Redshift'', ''-render'', ''/s.c4d'', ''-oimage'',
       ''/out'' @ [CHR 0x5C] @ ''f_'', ''-ofmt'', ''exr'']"
    by (simp add: leading_tokens_def exe_tokens_def renderer_tokens_def scene_tokens_def
        output_tokens_def output_stem_def format_tokens_def resolution_tokens_def
        example_config_def RenderConfig_init_def j)
  have thr: "thread_tokens ?c = [''-threads'', ''0'']"
    by (simp add: thread_tokens_def example_config_def decimal_def digits.simps)
  have b: "build_command True ntpath_join ?c =
     Inr ([''-renderer'', ''Redshift'', ''-render'', ''/s.c4d'', ''-oimage'',
           ''/out'' @ [CHR 0x5C] @ ''f_'', ''-ofmt'', ''exr'', ''-frame'', ''0'', ''50'',
           ''-threads'', ''0''],
          display_string True
            [''-renderer'', ''Redshift'', ''-render'', ''/s.c4d'', ''-oimage'',
             ''/out'' @ [CHR 0x5C] @ ''f_'', ''-ofmt'', ''exr'', ''-frame'', ''0'', ''50'',
             ''-threads'', ''0''])"
    using build_command_ok [OF s o example_within_limit(1) fr example_within_limit(2) ex,
        of ntpath_join] lead thr
    by simp
  have n: "''/out/f_'' \<notin> set [''-renderer'', ''Redshift'', ''-render'', ''/s.c4d'', ''-oimage'',
           ''/out'' @ [CHR 0x5C] @ ''f_'', ''-ofmt'', ''exr'', ''-frame'', ''0'', ''50'',
           ''-threads'', ''0'']"
    by simp
  from b n show ?thesis by blast
qed

text \<open>
  Claim C6, amended. For the configuration of the example (scene \<^verbatim>\<open>/s.c4d\<close>, output
  directory \<^verbatim>\<open>/out\<close>, base name \<^verbatim>\<open>f_\<close>, format \<^verbatim>\<open>exr\<close> overridden, a duration
  of 2.0 seconds at 25 frames per second, 0 threads, the other fields at their defaults
  and any executable path), on every platform \<open>build_command\<close> succeeds; its tokens
  hold the frame flag followed by 0 and 50, the pair \<^verbatim>\<open>-ofmt\<close>, \<^verbatim>\<open>exr\<close>, and the
  output flag followed by what \<^verbatim>\<open>os.path.join\<close> makes of \<^verbatim>\<open>/out\<close> and
  \<^verbatim>\<open>f_\<close>, which is the stem \<^verbatim>\<open>/out/f_\<close> with the join of POSIX.
\<close>

theorem example_command:
  "build_command win path_join (example_config guess) =
     Inr ((if guess = [] then [] else [guess])
            @ [''-renderer'', ''Redshift'', ''-render'', ''/s.c4d'', ''-oimage'',
               path_join ''/out'' ''f_'', ''-ofmt'', ''exr'', ''-frame'', ''0'', ''50'',
               ''-threads'', ''0''],
          display_string win
            ((if guess = [] then [] else [guess])
               @ [''-renderer'', ''Redshift'', ''-render'', ''/s.c4d'', ''-oimage'',
                  path_join ''/out'' ''f_'', ''-ofmt'', ''exr'', ''-frame'', ''0'', ''50'',
                  ''-threads'', ''0'']))
   \<and> posixpath_join ''/out'' ''f_'' = ''/out/f_''"
proof -
  let ?c = "example_config guess"
  have s: "scene_path ?c \<noteq> []" and o: "output_dir ?c \<noteq> []"
    by (simp_all add: example_config_def)
  have fr: "frame_args ?c = Inr [''-frame'', ''0'', ''50'']"
    by (rule frame_args_2_25) (simp_all add: example_config_def)
  have ex: "extra_arg_tokens win ?c = Inr []"
    by (simp add: extra_arg_tokens_def example_config_def RenderConfig_init_def py_strip_def)
  have lead: "leading_tokens path_join ?c =
      (if guess = [] then [] else [guess])
        @ [''-renderer'', ''Redshift'', ''-render'', ''/s.c4d'', ''-oimage'',
           path_join ''/out'' ''f_'', ''-ofmt'', ''exr'']"
    by (simp add: leading_tokens_def exe_tokens_def renderer_tokens_def scene_tokens_def
        output_tokens_def output_stem_def format_tokens_def resolution_tokens_def
        example_config_def RenderConfig_init_def)
  have thr: "thread_tokens ?c = [''-threads'', ''0'']"
    by (simp add: thread_tokens_def example_config_def decimal_def digits.simps)
  have j: "posixpath_join ''/out'' ''f_'' = ''/out/f_''"
    by (simp add: posixpath_join_def)
  show ?thesis
    using build_command_ok [OF s o example_within_limit(1) fr example_within_limit(2) ex,
        of path_join] lead thr j
    by simp
qed

theorem example_command_witness:
  "build_command False posixpath_join (example_config ''c4d'') =
     Inr ([''c4d'', ''-renderer'', ''Redshift'', ''-render'', ''/s.c4d'', ''-oimage'',
           ''/out/f_'', ''-ofmt'', ''exr'', ''-frame'', ''0'', ''50'', ''-threads'', ''0''],
          display_string False
            [''c4d'', ''-renderer'', ''Redshift'', ''-render'', ''/s.c4d'', ''-oimage'',
             ''/out/f_'', ''-ofmt'', ''exr'', ''-frame'', ''0'', ''50'', ''-threads'', ''0''])"
  using example_command [of False posixpath_join "''c4d''"]
  by simp

section \<open>The frame range\<close>

text \<open>
  Claim C2 as stated says that \<open>build_command\<close> succeeds for every configuration in
  duration mode with a scene path and an output directory. It does not: with a duration
  of \<open>2 ^ 1023\<close> seconds at 25 frames per second the product overflows to infinity and
  \<^verbatim>\<open>round\<close> raises OverflowError; with the extra arguments made of one double quote
  \<^verbatim>\<open>shlex.split\<close> raises ValueError; and with a thread count of \<open>10 ^ 4300\<close>, or
  with the resolution overridden by a width of \<open>10 ^ 4300\<close>, \<^verbatim>\<open>str\<close> raises
  ValueError.
\<close>

theorem duration_mode_failures:
  "use_duration ((example_config [])\<lparr>duration_seconds := PFinite (2 ^ 1023)\<rparr>)
   \<and> scene_path ((example_config [])\<lparr>duration_seconds := PFinite (2 ^ 1023)\<rparr>) \<noteq> []
   \<and> output_dir ((example_config [])\<lparr>duration_seconds := PFinite (2 ^ 1023)\<rparr>) \<noteq> []
   \<and> build_command False posixpath_join
        ((example_config [])\<lparr>duration_seconds := PFinite (2 ^ 1023)\<rparr>)
       = Inl (OverflowError ''cannot convert float infinity to integer'')
   \<and> use_duration ((example_config [])\<lparr>extra_args := [CHR 0x22]\<rparr>)
   \<and> scene_path ((example_config [])\<lparr>extra_args := [CHR 0x22]\<rparr>) \<noteq> []
   \<and> output_dir ((example_config [])\<lparr>extra_args := [CHR 0x22]\<rparr>) \<noteq> []
   \<and> build_command False posixpath_join ((example_config [])\<lparr>extra_args := [CHR 0x22]\<rparr>)
       = Inl (ValueError ''No closing quotation'')
   \<and> use_duration ((example_config [])\<lparr>threads := 10 ^ int_max_str_digits\<rparr>)
   \<and> scene_path ((example_config [])\<lparr>threads := 10 ^ int_max_str_digits\<rparr>) \<noteq> []
   \<and> output_dir ((example_config [])\<lparr>threads := 10 ^ int_max_str_digits\<rparr>) \<noteq> []
   \<and> build_command False posixpath_join
        ((example_config [])\<lparr>threads := 10 ^ int_max_str_digits\<rparr>)
       = Inl str_limit_error
   \<and> use_duration
        ((example_config [])\<lparr>override_res := True, res_w := 10 ^ int_max_str_digits\<rparr>)
   \<and> scene_path
        ((example_config [])\<lparr>override_res := True, res_w := 10 ^ int_max_str_digits\<rparr>) \<noteq> []
   \<and> output_dir
        ((example_config [])\<lparr>override_res := True, res_w := 10 ^ int_max_str_digits\<rparr>) \<noteq> []
   \<and> build_command False posixpath_join
        ((example_config [])\<lparr>override_res := True, res_w := 10 ^ int_max_str_digits\<rparr>)
       = Inl str_limit_error"
proof -
  let ?a = "(example_config [])\<lparr>duration_seconds := PFinite (2 ^ 1023)\<rparr>"
  let ?b = "(example_config [])\<lparr>extra_args := [CHR 0x22]\<rparr>"
  let ?c = "(example_config [])\<lparr>threads := 10 ^ int_max_str_digits\<rparr>"
  let ?d = "(example_config [])\<lparr>override_res := True, res_w := 10 ^ int_max_str_digits\<rparr>"
  have ua: "use_duration ?a" and sa: "scene_path ?a \<noteq> []" and oa: "output_dir ?a \<noteq> []"
    by (simp_all add: example_config_def)
  have ub: "use_duration ?b" and sb: "scene_path ?b \<noteq> []" and ob: "output_dir ?b \<noteq> []"
    by (simp_all add: example_config_def)
  have uc: "use_duration ?c" and sc: "scene_path ?c \<noteq> []" and oc: "output_dir ?c \<noteq> []"
    by (simp_all add: example_config_def)
  have ud: "use_duration ?d" and sd: "scene_path ?d \<noteq> []" and od: "output_dir ?d \<noteq> []"
    by (simp_all add: example_config_def)
  have ra: "resolution_within_limit ?a" and rb: "resolution_within_limit ?b"
    and rc: "resolution_within_limit ?c"
    by (simp_all add: resolution_within_limit_def example_config_def RenderConfig_init_def)
  have "float_mul_int (PFinite (2 ^ 1023)) 25 = Inr (PInf False)"
    by (simp add: float_mul_int_def float_of_int_def fround_def ilog2_def bitlen.simps
        pow2_def round_half_even_def Let_def)
  then have fa: "frame_args ?a = Inl (OverflowError ''cannot convert float infinity to integer'')"
    by (simp add: frame_args_def example_config_def)
  have a: "build_command False posixpath_join ?a
      = Inl (OverflowError ''cannot convert float infinity to integer'')"
    by (rule build_command_frame_error [OF sa oa ra fa])
  have fb: "frame_args ?b = Inr [''-frame'', ''0'', ''50'']"
    by (rule frame_args_2_25) (simp_all add: example_config_def)
  have tb: "within_str_limit (threads ?b)"
    by (simp add: example_config_def within_str_limit_small)
  have eb: "extra_arg_tokens False ?b = Inl (ValueError ''No closing quotation'')"
    by code_simp
  have b: "build_command False posixpath_join ?b = Inl (ValueError ''No closing quotation'')"
    by (rule build_command_extra_error [OF sb ob rb fb tb eb])
  have fc: "frame_args ?c = Inr [''-frame'', ''0'', ''50'']"
    by (rule frame_args_2_25) (simp_all add: example_config_def)
  have tc: "\<not> within_str_limit (threads ?c)"
    by (simp add: not_within_str_limit)
  have c: "build_command False posixpath_join ?c = Inl str_limit_error"
    by (rule build_command_thread_error [OF sc oc rc fc tc])
  have "resolution_args ?d = Inl str_limit_error"
    by (rule resolution_args_raises) (simp_all add: not_within_str_limit)
  then have d: "build_command False posixpath_join ?d = Inl str_limit_error"
    by (rule build_command_resolution_error [OF sd od])
  from ua sa oa a ub sb ob b uc sc oc c ud sd od d show ?thesis by blast
qed

text \<open>
  Claim C2, amended. For every configuration in duration mode with a scene path and an
  output directory, for which the product of the duration and the frame rate is a float
  that \<^verbatim>\<open>round\<close> accepts, whose thread count, and whose width and height when the
  resolution is overridden, have at most 4300 decimal digits, and whose extra arguments
  are blank or split without error, \<open>build_command\<close> succeeds and the frame tokens are
  the flag followed by 0 and by the rounded product. The command is the same whatever
  the stored start and end frames are.
\<close>

theorem duration_frame_range:
  assumes "use_duration cfg" and "scene_path cfg \<noteq> []" and "output_dir cfg \<noteq> []"
    and "resolution_within_limit cfg"
    and "float_mul_int (duration_seconds cfg) (fps cfg) = Inr x" and "py_round x = Inr n"
    and "within_str_limit (threads cfg)"
    and "extra_arg_tokens win cfg = Inr extra"
  shows "build_command win path_join cfg =
           Inr (leading_tokens path_join cfg @ [''-frame'', ''0'', decimal n]
                  @ thread_tokens cfg @ extra,
                display_string win
                  (leading_tokens path_join cfg @ [''-frame'', ''0'', decimal n]
                     @ thread_tokens cfg @ extra))
         \<and> build_command win path_join (cfg\<lparr>start_frame := s, end_frame := e\<rparr>)
             = build_command win path_join cfg"
proof -
  let ?cfg' = "cfg\<lparr>start_frame := s, end_frame := e\<rparr>"
  have n: "str_int n = Inr (decimal n)"
    using rounded_within_limit [OF assms(5,6)] by (rule str_int_ok)
  have fr: "frame_args cfg = Inr [''-frame'', ''0'', decimal n]"
    using assms(1,5,6) n by (simp add: frame_args_def str_int_0)
  have fr': "frame_args ?cfg' = Inr [''-frame'', ''0'', decimal n]"
    using assms(1,5,6) n by (simp add: frame_args_def str_int_0)
  have "extra_arg_tokens win ?cfg' = extra_arg_tokens win cfg"
    by (simp add: extra_arg_tokens_def)
  with assms(8) have ex': "extra_arg_tokens win ?cfg' = Inr extra"
    by simp
  have rs': "resolution_within_limit ?cfg'"
    using assms(4) by (simp add: resolution_within_limit_def)
  have th': "within_str_limit (threads ?cfg')"
    using assms(7) by simp
  have same: "leading_tokens path_join ?cfg' = leading_tokens path_join cfg"
    "thread_tokens ?cfg' = thread_tokens cfg"
    by (simp_all add: leading_tokens_def exe_tokens_def renderer_tokens_def scene_tokens_def
        output_tokens_def output_stem_def format_tokens_def resolution_tokens_def
        thread_tokens_def)
  have 1: "build_command win path_join cfg =
           Inr (leading_tokens path_join cfg @ [''-frame'', ''0'', decimal n]
                  @ thread_tokens cfg @ extra,
                display_string win
                  (leading_tokens path_join cfg @ [''-frame'', ''0'', decimal n]
                     @ thread_tokens cfg @ extra))"
    using build_command_ok [OF assms(2,3,4) fr assms(7,8)] by simp
  have s': "scene_path ?cfg' \<noteq> []" and o': "output_dir ?cfg' \<noteq> []"
    using assms(2,3) by simp_all
  have 2: "build_command win path_join ?cfg' = build_command win path_join cfg"
    using build_command_ok [OF s' o' rs' fr' th' ex', of path_join] 1 same
    by simp
  from 1 2 show ?thesis by blast
qed

theorem duration_frame_range_witness:
  "let c = (example_config [])\<lparr>start_frame := 9, end_frame := 3\<rparr>;
       cmd = [''-renderer'', ''Redshift'', ''-render'', ''/s.c4d'', ''-oimage'', ''/out/f_'',
              ''-ofmt'', ''exr'', ''-frame'', ''0'', ''50'', ''-threads'', ''0'']
   in use_duration c \<and> scene_path c \<noteq> [] \<and> output_dir c \<noteq> []
      \<and> resolution_within_limit c
      \<and> float_mul_int (duration_seconds c) (fps c) = Inr (PFinite 50)
      \<and> py_round (PFinite 50) = Inr 50
      \<and> within_str_limit (threads c)
      \<and> extra_arg_tokens False c = Inr []
      \<and> build_command False posixpath_join c = Inr (cmd, display_string False cmd)
      \<and> build_command False posixpath_join (c\<lparr>start_frame := 0, end_frame := 100\<rparr>)
          = build_command False posixpath_join c"
proof -
  let ?c = "(example_config [])\<lparr>start_frame := 9, end_frame := 3\<rparr>"
  have u: "use_duration ?c" and s: "scene_path ?c \<noteq> []" and o: "output_dir ?c \<noteq> []"
    by (simp_all add: example_config_def)
  have rs: "resolution_within_limit ?c"
    by (simp add: resolution_within_limit_def example_config_def RenderConfig_init_def)
  have th: "within_str_limit (threads ?c)"
    by (simp add: example_config_def within_str_limit_small)
  have m: "float_mul_int (duration_seconds ?c) (fps ?c) = Inr (PFinite 50)"
    by (simp add: example_config_def product_2_25)
  have ex: "extra_arg_tokens False ?c = Inr []"
    by code_simp
  have lead: "leading_tokens posixpath_join ?c =
      [''-renderer'', ''Redshift'', ''-render'', ''/s.c4d'', ''-oimage'', ''/out/f_'',
       ''-ofmt'', ''exr'']"
    by code_simp
  have thr: "thread_tokens ?c = [''-threads'', ''0'']"
    by code_simp
  have n: "decimal 50 = ''50''"
    by code_simp
  show ?thesis
    unfolding Let_def
    using duration_frame_range [OF u s o rs m round_50 th ex, where path_join = posixpath_join
        and s = 0 and e = 100]
      u s o rs m round_50 th ex lead thr n
    by simp
qed

text \<open>
  Claim C3 as stated says that \<open>build_command\<close> succeeds whenever the mode is the one
  of explicit frames and the end frame is not below the start frame. It does not when
  the extra arguments do not split: here they hold an unclosed single quote, and the
  frames are 0 and 100. Nor does it when \<^verbatim>\<open>str\<close> refuses an int: here the end
  frame, the thread count, or the width of an overridden resolution is \<open>10 ^ 4300\<close>.
\<close>

theorem explicit_range_failure:
  "\<not> use_duration ((example_config [])\<lparr>use_duration := False,
        extra_args := ''--x '' @ [CHR 0x27] @ ''y''\<rparr>)
   \<and> scene_path ((example_config [])\<lparr>use_duration := False,
        extra_args := ''--x '' @ [CHR 0x27] @ ''y''\<rparr>) \<noteq> []
   \<and> output_dir ((example_config [])\<lparr>use_duration := False,
        extra_args := ''--x '' @ [CHR 0x27] @ ''y''\<rparr>) \<noteq> []
   \<and> start_frame ((example_config [])\<lparr>use_duration := False,
        extra_args := ''--x '' @ [CHR 0x27] @ ''y''\<rparr>)
       \<le> end_frame ((example_config [])\<lparr>use_duration := False,
        extra_args := ''--x '' @ [CHR 0x27] @ ''y''\<rparr>)
   \<and> build_command False posixpath_join ((example_config [])\<lparr>use_duration := False,
        extra_args := ''--x '' @ [CHR 0x27] @ ''y''\<rparr>)
       = Inl (ValueError ''No closing quotation'')
   \<and> \<not> use_duration ((example_config [])\<lparr>use_duration := False,
        end_frame := 10 ^ int_max_str_digits\<rparr>)
   \<and> scene_path ((example_config [])\<lparr>use_duration := False,
        end_frame := 10 ^ int_max_str_digits\<rparr>) \<noteq> []
   \<and> output_dir ((example_config [])\<lparr>use_duration := False,
        end_frame := 10 ^ int_max_str_digits\<rparr>) \<noteq> []
   \<and> start_frame ((example_config [])\<lparr>use_duration := False,
        end_frame := 10 ^ int_max_str_digits\<rparr>)
       \<le> end_frame ((example_config [])\<lparr>use_duration := False,
        end_frame := 10 ^ int_max_str_digits\<rparr>)
   \<and> build_command False posixpath_join ((example_config [])\<lparr>use_duration := False,
        end_frame := 10 ^ int_max_str_digits\<rparr>)
       = Inl str_limit_error
   \<and> \<not> use_duration ((example_config [])\<lparr>use_duration := False,
        threads := 10 ^ int_max_str_digits\<rparr>)
   \<and> scene_path ((example_config [])\<lparr>use_duration := False,
        threads := 10 ^ int_max_str_digits\<rparr>) \<noteq> []
   \<and> output_dir ((example_config [])\<lparr>use_duration := False,
        threads := 10 ^ int_max_str_digits\<rparr>) \<noteq> []
   \<and> start_frame ((example_config [])\<lparr>use_duration := False,
        threads := 10 ^ int_max_str_digits\<rparr>)
       \<le> end_frame ((example_config [])\<lparr>use_duration := False,
        threads := 10 ^ int_max_str_digits\<rparr>)
   \<and> build_command False posixpath_join ((example_config [])\<lparr>use_duration := False,
        threads := 10 ^ int_max_str_digits\<rparr>)
       = Inl str_limit_error
   \<and> \<not> use_duration ((example_config [])\<lparr>use_duration := False, override_res := True,
        res_w := 10 ^ int_max_str_digits\<rparr>)
   \<and> scene_path ((example_config [])\<lparr>use_duration := False, override_res := True,
        res_w := 10 ^ int_max_str_digits\<rparr>) \<noteq> []
   \<and> output_dir ((example_config [])\<lparr>use_duration := False, override_res := True,
        res_w := 10 ^ int_max_str_digits\<rparr>) \<noteq> []
   \<and> start_frame ((example_config [])\<lparr>use_duration := False, override_res := True,
        res_w := 10 ^ int_max_str_digits\<rparr>)
       \<le> end_frame ((example_config [])\<lparr>use_duration := False, override_res := True,
        res_w := 10 ^ int_max_str_digits\<rparr>)
   \<and> build_command False posixpath_join ((example_config [])\<lparr>use_duration := False,
        override_res := True, res_w := 10 ^ int_max_str_digits\<rparr>)
       = Inl str_limit_error"
proof -
  let ?a = "(example_config [])\<lparr>use_duration := False,
        extra_args := ''--x '' @ [CHR 0x27] @ ''y''\<rparr>"
  let ?b = "(example_config [])\<lparr>use_duration := False, end_frame := 10 ^ int_max_str_digits\<rparr>"
  let ?c = "(example_config [])\<lparr>use_duration := False, threads := 10 ^ int_max_str_digits\<rparr>"
  let ?d = "(example_config [])\<lparr>use_duration := False, override_res := True,
        res_w := 10 ^ int_max_str_digits\<rparr>"
  have ua: "\<not> use_duration ?a" and sa: "scene_path ?a \<noteq> []" and oa: "output_dir ?a \<noteq> []"
    and la: "start_frame ?a \<le> end_frame ?a"
    by (simp_all add: example_config_def RenderConfig_init_def)
  have ub: "\<not> use_duration ?b" and sb: "scene_path ?b \<noteq> []" and ob: "output_dir ?b \<noteq> []"
    and lb: "start_frame ?b \<le> end_frame ?b"
    by (simp_all add: example_config_def RenderConfig_init_def)
  have uc: "\<not> use_duration ?c" and sc: "scene_path ?c \<noteq> []" and oc: "output_dir ?c \<noteq> []"
    and lc: "start_frame ?c \<le> end_frame ?c"
    by (simp_all add: example_config_def RenderConfig_init_def)
  have ud: "\<not> use_duration ?d" and sd: "scene_path ?d \<noteq> []" and od: "output_dir ?d \<noteq> []"
    and ld: "start_frame ?d \<le> end_frame ?d"
    by (simp_all add: example_config_def RenderConfig_init_def)
  have ra: "resolution_within_limit ?a" and rb: "resolution_within_limit ?b"
    and rc: "resolution_within_limit ?c"
    by (simp_all add: resolution_within_limit_def example_config_def RenderConfig_init_def)
  have fa: "frame_args ?a = Inr [''-frame'', ''0'', ''100'']"
    by (rule frame_args_0_100) (simp_all add: example_config_def RenderConfig_init_def)
  have ta: "within_str_limit (threads ?a)"
    by (simp add: example_config_def within_str_limit_small)
  have ea: "extra_arg_tokens False ?a = Inl (ValueError ''No closing quotation'')"
    by code_simp
  have a: "build_command False posixpath_join ?a = Inl (ValueError ''No closing quotation'')"
    by (rule build_command_extra_error [OF sa oa ra fa ta ea])
  have "str_int (end_frame ?b) = Inl str_limit_error"
    by (rule str_int_raises) (simp add: not_within_str_limit)
  then have fb: "frame_args ?b = Inl str_limit_error"
    using ub lb by (simp add: frame_args_def str_int_0 example_config_def RenderConfig_init_def)
  have b: "build_command False posixpath_join ?b = Inl str_limit_error"
    by (rule build_command_frame_error [OF sb ob rb fb])
  have fc: "frame_args ?c = Inr [''-frame'', ''0'', ''100'']"
    by (rule frame_args_0_100) (simp_all add: example_config_def RenderConfig_init_def)
  have tc: "\<not> within_str_limit (threads ?c)"
    by (simp add: not_within_str_limit)
  have c: "build_command False posixpath_join ?c = Inl str_limit_error"
    by (rule build_command_thread_error [OF sc oc rc fc tc])
  have "resolution_args ?d = Inl str_limit_error"
    by (rule resolution_args_raises) (simp_all add: not_within_str_limit)
  then have d: "build_command False posixpath_join ?d = Inl str_limit_error"
    by (rule build_command_resolution_error [OF sd od])
  from ua sa oa la a ub sb ob lb b uc sc oc lc c ud sd od ld d show ?thesis by blast
qed

text \<open>
  Claim C3, amended. For every configuration in the mode of explicit frames with a scene
  path and an output directory: if the end frame is below the start frame,
  \<open>build_command\<close> raises a ValueError and returns nothing, and the ValueError is the
  validation error of the frame range unless the resolution is overridden with a width
  or a height of more than 4300 decimal digits; if the end frame is not below the start
  frame, the start frame, the end frame, the thread count, and the width and the height
  when the resolution is overridden, have at most 4300 decimal digits, and the extra
  arguments are blank or split without error, it succeeds and the frame tokens are the
  flag followed by exactly the start frame and the end frame.
\<close>

theorem explicit_frame_range:
  assumes "\<not> use_duration cfg" and "scene_path cfg \<noteq> []" and "output_dir cfg \<noteq> []"
  shows "(end_frame cfg < start_frame cfg \<longrightarrow>
            (\<exists>msg. build_command win path_join cfg = Inl (ValueError msg))
            \<and> (resolution_within_limit cfg \<longrightarrow>
                 build_command win path_join cfg
                   = Inl (ValueError ''End frame must be >= start frame.'')))
       \<and> (start_frame cfg \<le> end_frame cfg \<longrightarrow> resolution_within_limit cfg \<longrightarrow>
            within_str_limit (start_frame cfg) \<longrightarrow> within_str_limit (end_frame cfg) \<longrightarrow>
            within_str_limit (threads cfg) \<longrightarrow> extra_arg_tokens win cfg = Inr extra \<longrightarrow>
            build_command win path_join cfg =
              Inr (leading_tokens path_join cfg
                     @ [''-frame'', decimal (start_frame cfg), decimal (end_frame cfg)]
                     @ thread_tokens cfg @ extra,
                   display_string win
                     (leading_tokens path_join cfg
                        @ [''-frame'', decimal (start_frame cfg), decimal (end_frame cfg)]
                        @ thread_tokens cfg @ extra)))"
proof (intro conjI impI)
  assume lt: "end_frame cfg < start_frame cfg"
  with assms(1) have fr: "frame_args cfg = Inl (ValueError ''End frame must be >= start frame.'')"
    by (simp add: frame_args_def)
  show "\<exists>msg. build_command win path_join cfg = Inl (ValueError msg)"
  proof (cases "resolution_args cfg")
    case (Inl e)
    from resolution_args_Inl [OF Inl] obtain m where "e = ValueError m"
      by blast
    with build_command_resolution_error [OF assms(2,3) Inl, of win path_join] show ?thesis
      by blast
  next
    case (Inr res)
    with fr have "build_command win path_join cfg
        = Inl (ValueError ''End frame must be >= start frame.'')"
      unfolding build_command_unfold [OF assms(2,3)] by simp
    then show ?thesis by blast
  qed
  assume "resolution_within_limit cfg"
  then show "build_command win path_join cfg
      = Inl (ValueError ''End frame must be >= start frame.'')"
    using fr by (rule build_command_frame_error [OF assms(2,3)])
next
  assume le: "start_frame cfg \<le> end_frame cfg" and rs: "resolution_within_limit cfg"
    and a: "within_str_limit (start_frame cfg)" and b: "within_str_limit (end_frame cfg)"
    and th: "within_str_limit (threads cfg)" and ex: "extra_arg_tokens win cfg = Inr extra"
  from le assms(1) str_int_ok [OF a] str_int_ok [OF b]
  have fr: "frame_args cfg
      = Inr [''-frame'', decimal (start_frame cfg), decimal (end_frame cfg)]"
    by (simp add: frame_args_def)
  show "build_command win path_join cfg =
              Inr (leading_tokens path_join cfg
                     @ [''-frame'', decimal (start_frame cfg), decimal (end_frame cfg)]
                     @ thread_tokens cfg @ extra,
                   display_string win
                     (leading_tokens path_join cfg
                        @ [''-frame'', decimal (start_frame cfg), decimal (end_frame cfg)]
                        @ thread_tokens cfg @ extra))"
    using build_command_ok [OF assms(2,3) rs fr th ex] by simp
qed

theorem explicit_frame_range_witness:
  "let c1 = (example_config [])\<lparr>use_duration := False, start_frame := 9, end_frame := 3\<rparr>;
       c2 = (example_config [])\<lparr>use_duration := False, start_frame := 3, end_frame := 9\<rparr>;
       cmd = [''-renderer'', ''Redshift'', ''-render'', ''/s.c4d'', ''-oimage'', ''/out/f_'',
              ''-ofmt'', ''exr'', ''-frame'', ''3'', ''9'', ''-threads'', ''0'']
   in \<not> use_duration c1 \<and> scene_path c1 \<noteq> [] \<and> output_dir c1 \<noteq> []
      \<and> end_frame c1 < start_frame c1 \<and> resolution_within_limit c1
      \<and> build_command False posixpath_join c1
          = Inl (ValueError ''End frame must be >= start frame.'')
      \<and> \<not> use_duration c2 \<and> scene_path c2 \<noteq> [] \<and> output_dir c2 \<noteq> []
      \<and> start_frame c2 \<le> end_frame c2 \<and> resolution_within_limit c2
      \<and> within_str_limit (start_frame c2) \<and> within_str_limit (end_frame c2)
      \<and> within_str_limit (threads c2)
      \<and> extra_arg_tokens False c2 = Inr []
      \<and> build_command False posixpath_join c2 = Inr (cmd, display_string False cmd)"
proof -
  let ?c1 = "(example_config [])\<lparr>use_duration := False, start_frame := 9, end_frame := 3\<rparr>"
  let ?c2 = "(example_config [])\<lparr>use_duration := False, start_frame := 3, end_frame := 9\<rparr>"
  have u1: "\<not> use_duration ?c1" and s1: "scene_path ?c1 \<noteq> []" and o1: "output_dir ?c1 \<noteq> []"
    and lt1: "end_frame ?c1 < start_frame ?c1"
    by (simp_all add: example_config_def)
  have u2: "\<not> use_duration ?c2" and s2: "scene_path ?c2 \<noteq> []" and o2: "output_dir ?c2 \<noteq> []"
    and le2: "start_frame ?c2 \<le> end_frame ?c2"
    by (simp_all add: example_config_def)
  have r1: "resolution_within_limit ?c1" and r2: "resolution_within_limit ?c2"
    by (simp_all add: resolution_within_limit_def example_config_def RenderConfig_init_def)
  have w2: "within_str_limit (start_frame ?c2)" "within_str_limit (end_frame ?c2)"
    "within_str_limit (threads ?c2)"
    by (simp_all add: example_config_def within_str_limit_small)
  have ex: "extra_arg_tokens False ?c2 = Inr []"
    by code_simp
  have lead: "leading_tokens posixpath_join ?c2 =
      [''-renderer'', ''Redshift'', ''-render'', ''/s.c4d'', ''-oimage'', ''/out/f_'',
       ''-ofmt'', ''exr'']"
    by code_simp
  have thr: "thread_tokens ?c2 = [''-threads'', ''0'']"
    by code_simp
  have n: "decimal (start_frame ?c2) = ''3''" "decimal (end_frame ?c2) = ''9''"
    by code_simp+
  show ?thesis
    unfolding Let_def
    using explicit_frame_range [OF u1 s1 o1, where path_join = posixpath_join and win = False]
      explicit_frame_range [OF u2 s2 o2, where path_join = posixpath_join and win = False
        and extra = "[]"]
      u1 s1 o1 lt1 r1 u2 s2 o2 le2 r2 w2 ex lead thr n
    by simp
qed

section \<open>A configuration without executable\<close>

text \<open>
  Claim C8 as stated says that \<open>build_command\<close> succeeds for every configuration with
  an empty executable path, a scene path, an output directory and a valid frame range.
  It does not when the extra arguments do not split: here they end with a backslash. Nor
  does it when \<^verbatim>\<open>str\<close> refuses the thread count, here \<open>- (10 ^ 4300)\<close>, or the
  width of an overridden resolution, here \<open>10 ^ 4300\<close>; the frames are those of
  the duration, 0 and 50.
\<close>

theorem no_executable_failure:
  "c4d_cmd ((example_config [])\<lparr>use_duration := False, extra_args := ''--x'' @ [CHR 0x5C]\<rparr>) = []
   \<and> scene_path ((example_config [])\<lparr>use_duration := False,
        extra_args := ''--x'' @ [CHR 0x5C]\<rparr>) \<noteq> []
   \<and> output_dir ((example_config [])\<lparr>use_duration := False,
        extra_args := ''--x'' @ [CHR 0x5C]\<rparr>) \<noteq> []
   \<and> \<not> use_duration ((example_config [])\<lparr>use_duration := False,
        extra_args := ''--x'' @ [CHR 0x5C]\<rparr>)
   \<and> start_frame ((example_config [])\<lparr>use_duration := False,
        extra_args := ''--x'' @ [CHR 0x5C]\<rparr>)
       \<le> end_frame ((example_config [])\<lparr>use_duration := False,
        extra_args := ''--x'' @ [CHR 0x5C]\<rparr>)
   \<and> build_command False posixpath_join ((example_config [])\<lparr>use_duration := False,
        extra_args := ''--x'' @ [CHR 0x5C]\<rparr>)
       = Inl (ValueError ''No escaped character'')
   \<and> c4d_cmd ((example_config [])\<lparr>threads := - (10 ^ int_max_str_digits)\<rparr>) = []
   \<and> scene_path ((example_config [])\<lparr>threads := - (10 ^ int_max_str_digits)\<rparr>) \<noteq> []
   \<and> output_dir ((example_config [])\<lparr>threads := - (10 ^ int_max_str_digits)\<rparr>) \<noteq> []
   \<and> frame_args ((example_config [])\<lparr>threads := - (10 ^ int_max_str_digits)\<rparr>)
       = Inr [''-frame'', ''0'', ''50'']
   \<and> build_command False posixpath_join
        ((example_config [])\<lparr>threads := - (10 ^ int_max_str_digits)\<rparr>)
       = Inl str_limit_error
   \<and> c4d_cmd ((example_config [])\<lparr>override_res := True,
        res_w := 10 ^ int_max_str_digits\<rparr>) = []
   \<and> scene_path ((example_config [])\<lparr>override_res := True,
        res_w := 10 ^ int_max_str_digits\<rparr>) \<noteq> []
   \<and> output_dir ((example_config [])\<lparr>override_res := True,
        res_w := 10 ^ int_max_str_digits\<rparr>) \<noteq> []
   \<and> frame_args ((example_config [])\<lparr>override_res := True,
        res_w := 10 ^ int_max_str_digits\<rparr>)
       = Inr [''-frame'', ''0'', ''50'']
   \<and> build_command False posixpath_join
        ((example_config [])\<lparr>override_res := True, res_w := 10 ^ int_max_str_digits\<rparr>)
       = Inl str_limit_error"
proof -
  let ?a = "(example_config [])\<lparr>use_duration := False, extra_args := ''--x'' @ [CHR 0x5C]\<rparr>"
  let ?b = "(example_config [])\<lparr>threads := - (10 ^ int_max_str_digits)\<rparr>"
  let ?c = "(example_config [])\<lparr>override_res := True, res_w := 10 ^ int_max_str_digits\<rparr>"
  have xa: "c4d_cmd ?a = []" and ua: "\<not> use_duration ?a"
    and sa: "scene_path ?a \<noteq> []" and oa: "output_dir ?a \<noteq> []"
    and la: "start_frame ?a \<le> end_frame ?a"
    by (simp_all add: example_config_def RenderConfig_init_def)
  have xb: "c4d_cmd ?b = []" and sb: "scene_path ?b \<noteq> []" and ob: "output_dir ?b \<noteq> []"
    by (simp_all add: example_config_def RenderConfig_init_def)
  have xc: "c4d_cmd ?c = []" and sc: "scene_path ?c \<noteq> []" and oc: "output_dir ?c \<noteq> []"
    by (simp_all add: example_config_def RenderConfig_init_def)
  have ra: "resolution_within_limit ?a" and rb: "resolution_within_limit ?b"
    by (simp_all add: resolution_within_limit_def example_config_def RenderConfig_init_def)
  have fa: "frame_args ?a = Inr [''-frame'', ''0'', ''100'']"
    by (rule frame_args_0_100) (simp_all add: example_config_def RenderConfig_init_def)
  have ta: "within_str_limit (threads ?a)"
    by (simp add: example_config_def within_str_limit_small)
  have ea: "extra_arg_tokens False ?a = Inl (ValueError ''No escaped character'')"
    by code_simp
  have a: "build_command False posixpath_join ?a = Inl (ValueError ''No escaped character'')"
    by (rule build_command_extra_error [OF sa oa ra fa ta ea])
  have fb: "frame_args ?b = Inr [''-frame'', ''0'', ''50'']"
    by (rule frame_args_2_25) (simp_all add: example_config_def)
  have tb: "\<not> within_str_limit (threads ?b)"
    by (simp add: within_str_limit_iff)
  have b: "build_command False posixpath_join ?b = Inl str_limit_error"
    by (rule build_command_thread_error [OF sb ob rb fb tb])
  have fc: "frame_args ?c = Inr [''-frame'', ''0'', ''50'']"
    by (rule frame_args_2_25) (simp_all add: example_config_def)
  have "resolution_args ?c = Inl str_limit_error"
    by (rule resolution_args_raises) (simp_all add: not_within_str_limit)
  then have c: "build_command False posixpath_join ?c = Inl str_limit_error"
    by (rule build_command_resolution_error [OF sc oc])
  from xa ua sa oa la a xb sb ob fb b xc sc oc fc c show ?thesis by blast
qed

text \<open>
  Claim C8, amended. For every configuration with an empty executable path, a scene path
  and an output directory, whose frame block raises nothing, whose thread count, and
  whose width and height when the resolution is overridden, have at most 4300 decimal
  digits, and whose extra arguments are blank or split without error, \<open>build_command\<close>
  succeeds. The token list has no executable token: it begins with the renderer flag
  when the renderer is forced and named, and with the render flag otherwise.
\<close>

theorem no_executable_token:
  assumes "c4d_cmd cfg = []" and "scene_path cfg \<noteq> []" and "output_dir cfg \<noteq> []"
    and "resolution_within_limit cfg" and "frame_args cfg = Inr frame"
    and "within_str_limit (threads cfg)" and "extra_arg_tokens win cfg = Inr extra"
  shows "\<exists>cmd pretty.
           build_command win path_join cfg = Inr (cmd, pretty)
         \<and> cmd = renderer_tokens cfg @ scene_tokens cfg @ output_tokens path_join cfg
                 @ format_tokens cfg @ resolution_tokens cfg @ frame @ thread_tokens cfg @ extra
         \<and> hd cmd = (if force_renderer cfg \<and> renderer cfg \<noteq> [] then ''-renderer''
                     else ''-render'')"
proof -
  have lead: "leading_tokens path_join cfg =
      renderer_tokens cfg @ scene_tokens cfg @ output_tokens path_join cfg
        @ format_tokens cfg @ resolution_tokens cfg"
    using assms(1) by (simp add: leading_tokens_def exe_tokens_def)
  have "hd (renderer_tokens cfg @ scene_tokens cfg @ output_tokens path_join cfg
                 @ format_tokens cfg @ resolution_tokens cfg @ frame @ thread_tokens cfg @ extra)
        = (if force_renderer cfg \<and> renderer cfg \<noteq> [] then ''-renderer'' else ''-render'')"
    by (simp add: renderer_tokens_def scene_tokens_def)
  with build_command_ok [OF assms(2,3,4,5,6,7), of path_join] lead show ?thesis
    by simp
qed

theorem no_executable_token_witness:
  "let c = (example_config [])\<lparr>force_renderer := False\<rparr>;
       cmd = [''-render'', ''/s.c4d'', ''-oimage'', ''/out/f_'', ''-ofmt'', ''exr'',
              ''-frame'', ''0'', ''50'', ''-threads'', ''0'']
   in c4d_cmd c = [] \<and> scene_path c \<noteq> [] \<and> output_dir c \<noteq> []
      \<and> resolution_within_limit c
      \<and> frame_args c = Inr [''-frame'', ''0'', ''50'']
      \<and> within_str_limit (threads c)
      \<and> extra_arg_tokens False c = Inr []
      \<and> build_command False posixpath_join c = Inr (cmd, display_string False cmd)
      \<and> hd cmd = ''-render''"
proof -
  let ?c = "(example_config [])\<lparr>force_renderer := False\<rparr>"
  have x: "c4d_cmd ?c = []" and s: "scene_path ?c \<noteq> []" and o: "output_dir ?c \<noteq> []"
    by (simp_all add: example_config_def RenderConfig_init_def)
  have rs: "resolution_within_limit ?c"
    by (simp add: resolution_within_limit_def example_config_def RenderConfig_init_def)
  have th: "within_str_limit (threads ?c)"
    by (simp add: example_config_def within_str_limit_small)
  have fr: "frame_args ?c = Inr [''-frame'', ''0'', ''50'']"
    by (rule frame_args_2_25) (simp_all add: example_config_def)
  have ex: "extra_arg_tokens False ?c = Inr []"
    by code_simp
  have lead: "leading_tokens posixpath_join ?c =
      [''-render'', ''/s.c4d'', ''-oimage'', ''/out/f_'', ''-ofmt'', ''exr'']"
    by code_simp
  have thr: "thread_tokens ?c = [''-threads'', ''0'']"
    by code_simp
  have h: "build_command False posixpath_join ?c =
      Inr ([''-render'', ''/s.c4d'', ''-oimage'', ''/out/f_'', ''-ofmt'', ''exr'',
            ''-frame'', ''0'', ''50'', ''-threads'', ''0''],
           display_string False
             [''-render'', ''/s.c4d'', ''-oimage'', ''/out/f_'', ''-ofmt'', ''exr'',
              ''-frame'', ''0'', ''50'', ''-threads'', ''0''])"
    using build_command_ok [OF s o rs fr th ex, of posixpath_join] lead thr by simp
  from no_executable_token [OF x s o rs fr th ex, of posixpath_join] obtain cmd pretty
    where b: "build_command False posixpath_join ?c = Inr (cmd, pretty)"
      and hd: "hd cmd = (if force_renderer ?c \<and> renderer ?c \<noteq> [] then ''-renderer''
                         else ''-render'')"
    by blast
  from b h have cmd: "cmd = [''-render'', ''/s.c4d'', ''-oimage'', ''/out/f_'', ''-ofmt'',
      ''exr'', ''-frame'', ''0'', ''50'', ''-threads'', ''0'']"
    by simp
  have "\<not> force_renderer ?c"
    by (simp add: example_config_def)
  with hd have "hd cmd = ''-render''"
    by simp
  then have hd': "hd [''-render'', ''/s.c4d'', ''-oimage'', ''/out/f_'', ''-ofmt'', ''exr'',
      ''-frame'', ''0'', ''50'', ''-threads'', ''0''] = ''-render''"
    unfolding cmd .
  show ?thesis
    unfolding Let_def using h x s o rs th fr ex hd' by blast
qed

section \<open>The extra arguments\<close>

text \<open>
  Claim C7. For every configuration, \<open>build_command\<close> does what it does for the same
  configuration without extra arguments, and then: when the extra arguments are blank
  (empty, or white space only) it appends nothing; when they are not blank it splits
  them into shell words, with the rules of POSIX when the platform is not Windows, and
  appends the tokens as they are, after all the other tokens, or raises what the
  splitting raises. The string \<^verbatim>\<open>--foo "bar baz"\<close> splits, with the rules of POSIX,
  into the two tokens \<^verbatim>\<open>--foo\<close> and \<^verbatim>\<open>bar baz\<close>.
\<close>

theorem extra_args_appended:
  "build_command win path_join cfg =
     (case build_command win path_join (cfg\<lparr>extra_args := []\<rparr>) of
        Inl e \<Rightarrow> Inl e
      | Inr (base, shown) \<Rightarrow>
          if py_strip (extra_args cfg) = [] then Inr (base, shown)
          else (case shlex_split (\<not> win) (extra_args cfg) of
                  Inl e \<Rightarrow> Inl e
                | Inr ts \<Rightarrow> Inr (base @ ts, display_string win (base @ ts))))
   \<and> shlex_split True (''--foo '' @ [CHR 0x22] @ ''bar baz'' @ [CHR 0x22])
       = Inr [''--foo'', ''bar baz'']"
proof -
  let ?cfg0 = "cfg\<lparr>extra_args := []\<rparr>"
  have same: "resolution_args ?cfg0 = resolution_args cfg"
    "frame_args ?cfg0 = frame_args cfg"
    "thread_args ?cfg0 = thread_args cfg"
    "leading_tokens path_join ?cfg0 = leading_tokens path_join cfg"
    "thread_tokens ?cfg0 = thread_tokens cfg"
    by (simp_all add: resolution_args_def frame_args_def thread_args_def leading_tokens_def
        exe_tokens_def renderer_tokens_def scene_tokens_def output_tokens_def output_stem_def
        format_tokens_def resolution_tokens_def thread_tokens_def cong: sum.case_cong)
  have ex0: "extra_arg_tokens win ?cfg0 = Inr []"
    by (simp add: extra_arg_tokens_def py_strip_def)
  have "build_command win path_join cfg =
     (case build_command win path_join ?cfg0 of
        Inl e \<Rightarrow> Inl e
      | Inr (base, shown) \<Rightarrow>
          if py_strip (extra_args cfg) = [] then Inr (base, shown)
          else (case shlex_split (\<not> win) (extra_args cfg) of
                  Inl e \<Rightarrow> Inl e
                | Inr ts \<Rightarrow> Inr (base @ ts, display_string win (base @ ts))))"
  proof (cases "scene_path cfg = [] \<or> output_dir cfg = []")
    case True
    then show ?thesis
      by (auto simp: build_command_def Let_def)
  next
    case False
    then have s: "scene_path cfg \<noteq> []" and o: "output_dir cfg \<noteq> []"
      and s0: "scene_path ?cfg0 \<noteq> []" and o0: "output_dir ?cfg0 \<noteq> []"
      by simp_all
    show ?thesis
      unfolding build_command_unfold [OF s o] build_command_unfold [OF s0 o0] same ex0
      by (auto simp: extra_arg_tokens_def split: sum.splits)
  qed
  with shlex_split_example show ?thesis
    by blast
qed

theorem extra_args_appended_witness:
  "build_command False posixpath_join
     ((example_config [])\<lparr>extra_args := ''--foo '' @ [CHR 0x22] @ ''bar baz'' @ [CHR 0x22]\<rparr>)
     = Inr ([''-renderer'', ''Redshift'', ''-render'', ''/s.c4d'', ''-oimage'', ''/out/f_'',
             ''-ofmt'', ''exr'', ''-frame'', ''0'', ''50'', ''-threads'', ''0'',
             ''--foo'', ''bar baz''],
            display_string False
              [''-renderer'', ''Redshift'', ''-render'', ''/s.c4d'', ''-oimage'', ''/out/f_'',
               ''-ofmt'', ''exr'', ''-frame'', ''0'', ''50'', ''-threads'', ''0'',
               ''--foo'', ''bar baz''])
   \<and> build_command False posixpath_join
       ((example_config [])\<lparr>extra_args := [CHR 0x20, CHR 0x09]\<rparr>)
     = Inr ([''-renderer'', ''Redshift'', ''-render'', ''/s.c4d'', ''-oimage'', ''/out/f_'',
             ''-ofmt'', ''exr'', ''-frame'', ''0'', ''50'', ''-threads'', ''0''],
            display_string False
              [''-renderer'', ''Redshift'', ''-render'', ''/s.c4d'', ''-oimage'', ''/out/f_'',
               ''-ofmt'', ''exr'', ''-frame'', ''0'', ''50'', ''-threads'', ''0''])"
proof -
  let ?c = "(example_config [])\<lparr>extra_args := ''--foo '' @ [CHR 0x22] @ ''bar baz'' @ [CHR 0x22]\<rparr>"
  let ?b = "(example_config [])\<lparr>extra_args := [CHR 0x20, CHR 0x09]\<rparr>"
  let ?base = "[''-renderer'', ''Redshift'', ''-render'', ''/s.c4d'', ''-oimage'', ''/out/f_'',
               ''-ofmt'', ''exr'', ''-frame'', ''0'', ''50'', ''-threads'', ''0'']"
  have e: "?c\<lparr>extra_args := []\<rparr> = example_config []" "?b\<lparr>extra_args := []\<rparr> = example_config []"
    by (simp_all add: example_config_def RenderConfig_init_def)
  have s: "scene_path (example_config []) \<noteq> []" and o: "output_dir (example_config []) \<noteq> []"
    by (simp_all add: example_config_def)
  have fr: "frame_args (example_config []) = Inr [''-frame'', ''0'', ''50'']"
    by (rule frame_args_2_25) (simp_all add: example_config_def)
  have ex: "extra_arg_tokens False (example_config []) = Inr []"
    by code_simp
  have lead: "leading_tokens posixpath_join (example_config []) =
      [''-renderer'', ''Redshift'', ''-render'', ''/s.c4d'', ''-oimage'', ''/out/f_'',
       ''-ofmt'', ''exr'']"
    by code_simp
  have thr: "thread_tokens (example_config []) = [''-threads'', ''0'']"
    by code_simp
  have h: "build_command False posixpath_join (example_config [])
      = Inr (?base, display_string False ?base)"
    using build_command_ok [OF s o example_within_limit(1) fr example_within_limit(2) ex,
        of posixpath_join] lead thr
    by simp
  have nb: "py_strip (extra_args ?c) \<noteq> []" and bl: "py_strip (extra_args ?b) = []"
    by code_simp+
  have sp: "shlex_split True (extra_args ?c) = Inr [''--foo'', ''bar baz'']"
    by code_simp
  have 1: "build_command False posixpath_join ?c
      = Inr (?base @ [''--foo'', ''bar baz''],
             display_string False (?base @ [''--foo'', ''bar baz'']))"
    using extra_args_appended [of False posixpath_join ?c] nb sp
    unfolding e h by simp
  have 2: "build_command False posixpath_join ?b = Inr (?base, display_string False ?base)"
    using extra_args_appended [of False posixpath_join ?b] bl
    unfolding e h by simp
  from 1 2 show ?thesis
    by simp
qed

section \<open>The callbacks of the process runner\<close>

text \<open>
  Claim C9 as stated says that the completion sink is called exactly once in every run
  of the worker. It is not called at all in these runs: the process writes the byte
  \<open>0xff\<close>, which is not UTF-8, so that reading its output raises UnicodeDecodeError;
  the process writes one line and then neither writes nor exits, so that the worker
  waits for ever; the output sink raises on the line it is given.
\<close>

theorem worker_without_completion:
  "calls (worker (Process [Undecodable ([CHR 0x27] @ ''utf-8'' @ [CHR 0x27] @ '' codec can''
            @ [CHR 0x27] @ ''t decode byte 0xff in position 0: invalid start byte'')] (Some 0))
          quiet_output quiet_done ()) = []
   \<and> ending_of (worker (Process [Undecodable ([CHR 0x27] @ ''utf-8'' @ [CHR 0x27]
            @ '' codec can'' @ [CHR 0x27]
            @ ''t decode byte 0xff in position 0: invalid start byte'')] (Some 0))
          quiet_output quiet_done ())
       = Raised (UnicodeDecodeError ([CHR 0x27] @ ''utf-8'' @ [CHR 0x27] @ '' codec can''
            @ [CHR 0x27] @ ''t decode byte 0xff in position 0: invalid start byte''))
   \<and> calls (worker (Process [Line [CHR ''a'', CHR 0x0A]] None) quiet_output quiet_done ())
       = [Output [CHR ''a'', CHR 0x0A]]
   \<and> ending_of (worker (Process [Line [CHR ''a'', CHR 0x0A]] None) quiet_output quiet_done ())
       = Blocked
   \<and> calls (worker (Process [Line [CHR ''a'', CHR 0x0A]] (Some 0)) raising_output quiet_done ())
       = [Output [CHR ''a'', CHR 0x0A]]
   \<and> ending_of (worker (Process [Line [CHR ''a'', CHR 0x0A]] (Some 0)) raising_output
          quiet_done ())
       = Raised (RuntimeError ''main thread is not in main loop'')"
  by (simp add: worker_def calls_def ending_of_def quiet_output_def quiet_done_def
      raising_output_def call_done_def)

lemma forward_output_lines:
  assumes "\<forall>l s. snd (on_output l s) = None"
  shows "\<exists>s'. forward_output on_output (map Line lines) tr s = (tr @ map Output lines, s', None)"
proof (induction lines arbitrary: tr s)
  case Nil
  show ?case by simp
next
  case (Cons l lines)
  from assms obtain s1 where 1: "on_output l s = (s1, None)"
    by (metis prod.collapse)
  from Cons.IH [of "tr @ [Output l]" s1] obtain s'
    where "forward_output on_output (map Line lines) (tr @ [Output l]) s1
             = ((tr @ [Output l]) @ map Output lines, s', None)"
    by blast
  with 1 show ?case by simp
qed

lemma report_failure_calls:
  assumes "\<forall>l s. snd (on_output l s) = None" and "\<forall>c s. snd (on_done c s) = None"
  shows "\<exists>s'. report_failure on_output on_done msg s = ([Output msg, Done 1], s', Returned)"
proof -
  from assms(1) obtain s1 where 1: "on_output msg s = (s1, None)"
    by (metis prod.collapse)
  from assms(2) obtain s2 where 2: "on_done 1 s1 = (s2, None)"
    by (metis prod.collapse)
  from 1 2 show ?thesis
    by (simp add: report_failure_def call_done_def)
qed

text \<open>
  Claim C9, amended. For every run of the worker in which the two sinks return, and in
  which the launch fails, or the output of the process is read to its end and the
  process exits, the completion sink is called exactly once and its call is the last
  one, and the worker returns. On a launch failure (executable not found, or another
  exception of the launch) the calls are one call of the output sink with the error line
  and then the call of the completion sink with code 1. When the process exits, the
  calls are those of the output sink with the lines in their order and then the call of
  the completion sink with the exit code of the process.
\<close>

theorem worker_callbacks:
  assumes "\<forall>l s. snd (on_output l s) = None" and "\<forall>c s. snd (on_done c s) = None"
  shows "calls (worker FileNotFoundError on_output on_done s)
           = [Output (''ERROR: Commandline executable not found.'' @ [CHR 0x0A]), Done 1]
       \<and> ending_of (worker FileNotFoundError on_output on_done s) = Returned
       \<and> calls (worker (OtherException m) on_output on_done s)
           = [Output (''ERROR: '' @ m @ [CHR 0x0A]), Done 1]
       \<and> ending_of (worker (OtherException m) on_output on_done s) = Returned
       \<and> calls (worker (Process (map Line lines) (Some ret)) on_output on_done s)
           = map Output lines @ [Done ret]
       \<and> ending_of (worker (Process (map Line lines) (Some ret)) on_output on_done s)
           = Returned
       \<and> filter is_done (calls (worker (Process (map Line lines) (Some ret)) on_output on_done s))
           = [Done ret]"
proof -
  from report_failure_calls [OF assms]
  obtain s1 where 1: "worker FileNotFoundError on_output on_done s
      = ([Output (''ERROR: Commandline executable not found.'' @ [CHR 0x0A]), Done 1], s1,
         Returned)"
    unfolding worker_def by (auto simp del: append.simps)
  from report_failure_calls [OF assms]
  obtain s2 where 2: "worker (OtherException m) on_output on_done s
      = ([Output (''ERROR: '' @ m @ [CHR 0x0A]), Done 1], s2, Returned)"
    unfolding worker_def by (auto simp del: append.simps)
  from forward_output_lines [OF assms(1), of lines "[]" s]
  obtain s3 where f: "forward_output on_output (map Line lines) [] s
      = (map Output lines, s3, None)"
    by auto
  from assms(2) obtain s4 where d: "on_done ret s3 = (s4, None)"
    by (metis prod.collapse)
  from f d have 3: "worker (Process (map Line lines) (Some ret)) on_output on_done s
      = (map Output lines @ [Done ret], s4, Returned)"
    by (simp add: worker_def call_done_def)
  have 4: "filter is_done (map Output lines @ [Done ret]) = [Done ret]"
    by (induction lines) simp_all
  from 1 2 3 4 show ?thesis
    by (simp add: calls_def ending_of_def)
qed

theorem worker_callbacks_witness:
  "(\<forall>l s. snd (quiet_output l s) = None) \<and> (\<forall>c s. snd (quiet_done c s) = None)
   \<and> calls (worker FileNotFoundError quiet_output quiet_done ())
       = [Output (''ERROR: Commandline executable not found.'' @ [CHR 0x0A]), Done 1]
   \<and> ending_of (worker FileNotFoundError quiet_output quiet_done ()) = Returned
   \<and> calls (worker (OtherException ''list index out of range'') quiet_output quiet_done ())
       = [Output (''ERROR: list index out of range'' @ [CHR 0x0A]), Done 1]
   \<and> ending_of (worker (OtherException ''list index out of range'') quiet_output quiet_done ())
       = Returned
   \<and> calls (worker (Process [Line [CHR ''a'', CHR 0x0A], Line [CHR ''b'', CHR 0x0A]] (Some 3))
        quiet_output quiet_done ())
       = [Output [CHR ''a'', CHR 0x0A], Output [CHR ''b'', CHR 0x0A], Done 3]
   \<and> ending_of (worker (Process [Line [CHR ''a'', CHR 0x0A], Line [CHR ''b'', CHR 0x0A]]
        (Some 3)) quiet_output quiet_done ())
       = Returned"
proof -
  have q: "\<forall>l s. snd (quiet_output l s) = None" "\<forall>c s. snd (quiet_done c s) = None"
    by (simp_all add: quiet_output_def quiet_done_def)
  from worker_callbacks [OF q, of "()" "''list index out of range''"
      "[[CHR ''a'', CHR 0x0A], [CHR ''b'', CHR 0x0A]]" 3] q
  show ?thesis
    by simp
qed

end
